theory Spec2Isabelle
  imports Complex_Main
begin

section \<open>Python values, exceptions and printing\<close>

text \<open>
  The script \<^verbatim>\<open>transfer_learning.py\<close> is a straight sequence of calls into a deep-learning
  framework and a metrics agent. Exceptions are values. The only handler of the script is
  \<^verbatim>\<open>except Exception\<close>, which catches the instances of \<^verbatim>\<open>Exception\<close> and lets the other
  instances of \<^verbatim>\<open>BaseException\<close> (\<^verbatim>\<open>KeyboardInterrupt\<close>, \<^verbatim>\<open>SystemExit\<close>, \<^verbatim>\<open>GeneratorExit\<close>)
  pass, so the class of an exception is part of the model.
\<close>

datatype exn =
    KeyError string
  | TypeError string
  | ValueError string
  | ZeroDivisionError string
  | OtherException string
  | BaseExceptionOnly string

fun is_Exception :: "exn \<Rightarrow> bool" where
  "is_Exception (BaseExceptionOnly m) = False"
| "is_Exception e = True"

text \<open>
  Values found in the \<^verbatim>\<open>logs\<close> dictionary. Metric values are floating-point numbers; the
  script never computes with them, it only passes them on, so a rational stands for the
  number. \<^verbatim>\<open>float(v)\<close> is the identity on a number and raises \<^verbatim>\<open>TypeError\<close> on \<^verbatim>\<open>None\<close> and on
  an object without a conversion.
\<close>

datatype pyval = PyNum rat | PyNone | PyObject string

fun py_float :: "pyval \<Rightarrow> exn + rat" where
  "py_float (PyNum r) = Inr r"
| "py_float PyNone =
     Inl (TypeError ''float() argument must be a string or a number, not NoneType'')"
| "py_float (PyObject t) =
     Inl (TypeError (''float() argument must be a string or a number, not '' @ t))"

type_synonym logs = "string \<rightharpoonup> pyval"

definition getitem :: "logs \<Rightarrow> string \<Rightarrow> exn + pyval" where
  "getitem d k = (case d k of None \<Rightarrow> Inl (KeyError k) | Some v \<Rightarrow> Inr v)"

definition floordiv :: "nat \<Rightarrow> nat \<Rightarrow> exn + nat" where
  "floordiv a b =
     (if b = 0 then Inl (ZeroDivisionError ''integer division or modulo by zero'')
      else Inr (a div b))"

definition py_mod :: "nat \<Rightarrow> nat \<Rightarrow> exn + nat" where
  "py_mod a b =
     (if b = 0 then Inl (ZeroDivisionError ''integer division or modulo by zero'')
      else Inr (a mod b))"

text \<open>\<^verbatim>\<open>int(x)\<close> on a float truncates towards zero.\<close>

definition py_int :: "rat \<Rightarrow> int" where
  "py_int x = (if x < 0 then \<lceil>x\<rceil> else \<lfloor>x\<rfloor>)"

fun decimal :: "nat \<Rightarrow> string" where
  "decimal n =
     (if n < 10 then [''0123456789'' ! n]
      else decimal (n div 10) @ [''0123456789'' ! (n mod 10)])"

declare decimal.simps [simp del]

text \<open>The conversion \<^verbatim>\<open>%d\<close> of an integer.\<close>

definition show_int :: "int \<Rightarrow> string" where
  "show_int i = (if i < 0 then ''-'' @ decimal (nat (- i)) else decimal (nat i))"

text \<open>The format field \<^verbatim>\<open>{epoch:02d}\<close>: decimal digits, padded with zeros to two characters.\<close>

definition format_02d :: "nat \<Rightarrow> string" where
  "format_02d n = (if n < 10 then ''0'' @ decimal n else decimal n)"

datatype printable = PStr string | PInt nat | PFloats "rat list" | PExn exn

section \<open>The framework objects the script handles\<close>

datatype layer_kind = Pretrained | GlobalAveragePooling2D | Dense nat string

record layer =
  lname :: string
  kind :: layer_kind
  trainable :: bool

text \<open>
  A tensor is known by the way it was built: the backbone's input, the backbone's output,
  or a layer object (its address in the heap) applied to a tensor.
\<close>

datatype tensor = BaseInput | BaseOutput | Applied nat tensor

record base_model =
  blayers :: "nat list"
  binput :: tensor
  boutput :: tensor

record model =
  inputs :: tensor
  outputs :: tensor
  mlayers :: "nat list"

datatype optimizer = Named string | SGD rat rat

record generator =
  directory :: string
  n :: nat
  batch_size :: nat

section \<open>Calls into the framework, the trace and the environment\<close>

datatype call =
    InceptionV3 string bool
  | NewLayer layer_kind
  | NewModel tensor tensor
  | Compile optimizer string "string list" "bool list"
  | FlowFromDirectory string "nat \<times> nat" string nat string bool
  | FitGenerator string nat nat
  | TrainBatch nat nat
  | ReportScalar "(string \<times> rat) list"
  | Print "printable list"
  | SaveWeights string
  | EvaluateGenerator string nat
  | Time
  | ModelSave string

datatype outcome =
    Raised exn
  | Done
  | Count nat
  | LossAcc rat rat
  | Clock rat

text \<open>
  Everything outside the script is an environment: whether the \<open>k\<close>-th interaction raises,
  the layer names of the pretrained network, the number of images a directory scan finds,
  the logs the training loop hands to its callbacks, the result of an evaluation, and the
  clock. The position \<open>k\<close> of an interaction is the length of the trace before it.
  \<open>millis\<close> is the floating-point product \<^verbatim>\<open>time.time() * 1000\<close>.
\<close>

record env =
  raises :: "nat \<Rightarrow> call \<Rightarrow> exn option"
  inception_layers :: "string list"
  auto_name :: "nat \<Rightarrow> string"
  image_count :: "nat \<Rightarrow> string \<Rightarrow> nat"
  batch_logs :: "nat \<Rightarrow> logs"
  evaluation :: "nat \<Rightarrow> rat \<times> rat"
  millis :: "nat \<Rightarrow> rat"

record world =
  trace :: "(call \<times> outcome) list"
  heap :: "layer list"

definition init :: world where
  "init = \<lparr>trace = [], heap = []\<rparr>"

type_synonym 'a prog = "world \<Rightarrow> (exn + 'a) \<times> world"

definition returnE :: "'a \<Rightarrow> 'a prog" where
  "returnE x = (\<lambda>w. (Inr x, w))"

definition liftE :: "exn + 'a \<Rightarrow> 'a prog" where
  "liftE r = (\<lambda>w. (r, w))"

definition bindE :: "'a prog \<Rightarrow> ('a \<Rightarrow> 'b prog) \<Rightarrow> 'b prog" where
  "bindE m f = (\<lambda>w. case m w of (Inl e, w') \<Rightarrow> (Inl e, w') | (Inr x, w') \<Rightarrow> f x w')"

text \<open>\<^verbatim>\<open>try: m  except Exception as e: h e\<close>\<close>

definition tryE :: "'a prog \<Rightarrow> (exn \<Rightarrow> 'a prog) \<Rightarrow> 'a prog" where
  "tryE m h =
     (\<lambda>w. case m w of
        (Inl e, w') \<Rightarrow> if is_Exception e then h e w' else (Inl e, w')
      | (Inr x, w') \<Rightarrow> (Inr x, w'))"

fun forE :: "'a list \<Rightarrow> ('a \<Rightarrow> unit prog) \<Rightarrow> unit prog" where
  "forE [] body = returnE ()"
| "forE (x # xs) body = bindE (body x) (\<lambda>_. forE xs body)"

definition record_call :: "call \<Rightarrow> outcome \<Rightarrow> world \<Rightarrow> world" where
  "record_call c out w = w\<lparr>trace := trace w @ [(c, out)]\<rparr>"

text \<open>
  A call into the framework or the agent: the environment decides whether it raises; if
  not, \<open>res\<close> gives its value at this position and \<open>shown\<close> what the trace keeps of it.
\<close>

definition ext_call :: "env \<Rightarrow> call \<Rightarrow> (nat \<Rightarrow> 'a) \<Rightarrow> ('a \<Rightarrow> outcome) \<Rightarrow> 'a prog" where
  "ext_call env c res shown =
     (\<lambda>w. case raises env (length (trace w)) c of
        Some e \<Rightarrow> (Inl e, record_call c (Raised e) w)
      | None \<Rightarrow> (Inr (res (length (trace w))),
                 record_call c (shown (res (length (trace w)))) w))"

definition ext :: "env \<Rightarrow> call \<Rightarrow> unit prog" where
  "ext env c = ext_call env c (\<lambda>_. ()) (\<lambda>_. Done)"

text \<open>Writing to standard output is taken to succeed.\<close>

definition print :: "printable list \<Rightarrow> unit prog" where
  "print xs = (\<lambda>w. (Inr (), record_call (Print xs) Done w))"

definition report_scalar :: "env \<Rightarrow> (string \<times> rat) list \<Rightarrow> unit prog" where
  "report_scalar env args = ext env (ReportScalar args)"

section \<open>The framework's operations\<close>

text \<open>
  Objects that only carry configuration (\<^verbatim>\<open>ImageDataGenerator\<close>, \<^verbatim>\<open>SGD\<close>, \<^verbatim>\<open>LambdaCallback\<close>,
  \<^verbatim>\<open>ModelCheckpoint\<close>) are plain values; every operation that builds the network, touches
  the file system, trains, evaluates, reads the clock or talks to the agent is a call.

  Constructing the pretrained network allocates its layer objects, trainable as the
  framework creates them.
\<close>

definition InceptionV3_app :: "env \<Rightarrow> string \<Rightarrow> bool \<Rightarrow> base_model prog" where
  "InceptionV3_app env weights include_top =
     bindE (ext env (InceptionV3 weights include_top)) (\<lambda>_ w.
       (Inr \<lparr>blayers = [length (heap w) ..< length (heap w) + length (inception_layers env)],
             binput = BaseInput, boutput = BaseOutput\<rparr>,
        w\<lparr>heap := heap w @
             map (\<lambda>s. \<lparr>lname = s, kind = Pretrained, trainable = True\<rparr>) (inception_layers env)\<rparr>))"

text \<open>\<^verbatim>\<open>K(...)(x)\<close>: a new layer object of kind \<open>K\<close>, applied to the tensor \<open>x\<close>.\<close>

definition apply_layer :: "env \<Rightarrow> layer_kind \<Rightarrow> tensor \<Rightarrow> tensor prog" where
  "apply_layer env k x =
     bindE (ext_call env (NewLayer k) (auto_name env) (\<lambda>_. Done)) (\<lambda>nm w.
       (Inr (Applied (length (heap w)) x),
        w\<lparr>heap := heap w @ [\<lparr>lname = nm, kind = k, trainable = True\<rparr>]\<rparr>))"

text \<open>
  The layers of a model are those on the way from its inputs to its outputs: the
  backbone's layers, then the layers applied on top of the backbone's output.
\<close>

fun layers_of :: "nat list \<Rightarrow> tensor \<Rightarrow> nat list" where
  "layers_of base BaseInput = []"
| "layers_of base BaseOutput = base"
| "layers_of base (Applied a t) = layers_of base t @ [a]"

definition Model :: "env \<Rightarrow> base_model \<Rightarrow> tensor \<Rightarrow> tensor \<Rightarrow> model prog" where
  "Model env base ins outs =
     bindE (ext env (NewModel ins outs)) (\<lambda>_.
       returnE \<lparr>inputs = ins, outputs = outs, mlayers = layers_of (blayers base) outs\<rparr>)"

definition set_trainable :: "nat \<Rightarrow> bool \<Rightarrow> unit prog" where
  "set_trainable a b = (\<lambda>w. (Inr (), w\<lparr>heap := (heap w)[a := (heap w ! a)\<lparr>trainable := b\<rparr>]\<rparr>))"

text \<open>
  Compilation fixes which layers the optimizer updates: the call records the trainable
  flag of every layer of the model at that moment.
\<close>

definition compile :: "env \<Rightarrow> model \<Rightarrow> optimizer \<Rightarrow> string \<Rightarrow> string list \<Rightarrow> unit prog" where
  "compile env m opt loss metrics =
     (\<lambda>w. ext env (Compile opt loss metrics (map (\<lambda>a. trainable (heap w ! a)) (mlayers m))) w)"

definition flow_from_directory ::
  "env \<Rightarrow> string \<Rightarrow> nat \<times> nat \<Rightarrow> string \<Rightarrow> nat \<Rightarrow> string \<Rightarrow> bool \<Rightarrow> generator prog" where
  "flow_from_directory env dir target_size color_mode bs class_mode shuffle =
     ext_call env (FlowFromDirectory dir target_size color_mode bs class_mode shuffle)
       (\<lambda>k. \<lparr>directory = dir, n = image_count env k dir, batch_size = bs\<rparr>)
       (\<lambda>g. Count (n g))"

datatype callback =
    LambdaCallback "nat \<Rightarrow> logs \<Rightarrow> unit prog"
  | ModelCheckpoint "nat \<Rightarrow> string"

text \<open>
  The framework's training routine, after its documented contract: for each epoch
  \<open>0, \<dots>, epochs - 1\<close> it trains \<open>steps_per_epoch\<close> batches, calling every callback's
  \<^verbatim>\<open>on_batch_end(batch, logs)\<close> after each batch, and calls every callback's
  \<^verbatim>\<open>on_epoch_end\<close> after the epoch. A \<^verbatim>\<open>LambdaCallback(on_batch_end=f)\<close> acts at batch ends
  only; a \<^verbatim>\<open>ModelCheckpoint(filepath)\<close> acts at epoch ends only, saving the model to
  \<^verbatim>\<open>filepath.format(epoch=epoch + 1)\<close>. An exception of a batch, a callback or a save leaves
  the routine.
\<close>

fun cb_on_batch_end :: "callback \<Rightarrow> nat \<Rightarrow> logs \<Rightarrow> unit prog" where
  "cb_on_batch_end (LambdaCallback f) batch lg = f batch lg"
| "cb_on_batch_end (ModelCheckpoint filepath) batch lg = returnE ()"

fun cb_on_epoch_end :: "env \<Rightarrow> callback \<Rightarrow> nat \<Rightarrow> unit prog" where
  "cb_on_epoch_end env (LambdaCallback f) epoch = returnE ()"
| "cb_on_epoch_end env (ModelCheckpoint filepath) epoch = ext env (SaveWeights (filepath (epoch + 1)))"

definition train_batch :: "env \<Rightarrow> callback list \<Rightarrow> nat \<Rightarrow> nat \<Rightarrow> unit prog" where
  "train_batch env callbacks epoch batch =
     bindE (ext_call env (TrainBatch epoch batch) (batch_logs env) (\<lambda>_. Done)) (\<lambda>lg.
       forE callbacks (\<lambda>cb. cb_on_batch_end cb batch lg))"

definition train_epoch :: "env \<Rightarrow> callback list \<Rightarrow> nat \<Rightarrow> nat \<Rightarrow> unit prog" where
  "train_epoch env callbacks steps_per_epoch epoch =
     bindE (forE [0 ..< steps_per_epoch] (train_batch env callbacks epoch)) (\<lambda>_.
       forE callbacks (\<lambda>cb. cb_on_epoch_end env cb epoch))"

definition fit_generator :: "env \<Rightarrow> generator \<Rightarrow> nat \<Rightarrow> nat \<Rightarrow> callback list \<Rightarrow> unit prog" where
  "fit_generator env gen steps_per_epoch epochs callbacks =
     bindE (ext env (FitGenerator (directory gen) steps_per_epoch epochs)) (\<lambda>_.
       forE [0 ..< epochs] (train_epoch env callbacks steps_per_epoch))"

text \<open>With the one metric the script compiles, an evaluation returns the loss and that metric.\<close>

definition evaluate_generator :: "env \<Rightarrow> generator \<Rightarrow> nat \<Rightarrow> (rat \<times> rat) prog" where
  "evaluate_generator env gen steps =
     ext_call env (EvaluateGenerator (directory gen) steps) (evaluation env)
       (\<lambda>(l, a). LossAcc l a)"

definition time_millis :: "env \<Rightarrow> rat prog" where
  "time_millis env = ext_call env Time (millis env) Clock"

definition model_save :: "env \<Rightarrow> string \<Rightarrow> unit prog" where
  "model_save env path = ext env (ModelSave path)"

section \<open>The script\<close>

text \<open>Lines 45 to 50: the callback run at the end of every minibatch.\<close>

definition on_batch_end :: "env \<Rightarrow> nat \<Rightarrow> logs \<Rightarrow> unit prog" where
  "on_batch_end env batch lg =
     tryE
       (bindE (liftE (getitem lg ''loss'')) (\<lambda>v.
        bindE (liftE (py_float v)) (\<lambda>x.
        bindE (report_scalar env [(''Train loss'', x)]) (\<lambda>_.
        bindE (liftE (getitem lg ''categorical_accuracy'')) (\<lambda>v.
        bindE (liftE (py_float v)) (\<lambda>y.
        report_scalar env [(''Train accuracy'', y)]))))))
       (\<lambda>e. print [PExn e])"

definition meeshkan_callback :: "env \<Rightarrow> callback" where
  "meeshkan_callback env = LambdaCallback (on_batch_end env)"

text \<open>The checkpoint path \<^verbatim>\<open>'weights.{epoch:02d}.hdf5'\<close> as a function of the epoch field.\<close>

definition weights_path :: "nat \<Rightarrow> string" where
  "weights_path epoch = ''weights.'' @ format_02d epoch @ ''.hdf5''"

text \<open>Lines 56 to 73; \<open>make_generator\<close> is the script's \<^verbatim>\<open>_make_generator\<close>.\<close>

definition make_generator :: "env \<Rightarrow> string \<Rightarrow> generator prog" where
  "make_generator env dest_folder =
     flow_from_directory env dest_folder (229, 229) ''rgb'' 32 ''categorical'' True"

definition make_train_generator :: "env \<Rightarrow> generator prog" where
  "make_train_generator env = make_generator env ''./train/''"

definition make_test_generator :: "env \<Rightarrow> generator prog" where
  "make_test_generator env = make_generator env ''./test/''"

text \<open>Lines 18 to 33: the backbone and the new head.\<close>

definition build_model :: "env \<Rightarrow> (base_model \<times> model) prog" where
  "build_model env =
     bindE (InceptionV3_app env ''imagenet'' False) (\<lambda>base.
     bindE (apply_layer env GlobalAveragePooling2D (boutput base)) (\<lambda>x.
     bindE (apply_layer env (Dense 1024 ''relu'') x) (\<lambda>x.
     bindE (apply_layer env (Dense 512 ''relu'') x) (\<lambda>x.
     bindE (apply_layer env (Dense 32 ''relu'') x) (\<lambda>x.
     bindE (apply_layer env (Dense 2 ''softmax'') x) (\<lambda>predictions.
     bindE (Model env base (binput base) predictions) (\<lambda>m.
     returnE (base, m))))))))"

definition step_size :: "generator \<Rightarrow> nat prog" where
  "step_size gen = liftE (floordiv (n gen) (batch_size gen))"

text \<open>Lines 37 to 84: freeze the backbone, compile, train the head for 50 epochs.\<close>

definition phase_one :: "env \<Rightarrow> base_model \<Rightarrow> model \<Rightarrow> unit prog" where
  "phase_one env base m =
     bindE (forE (blayers base) (\<lambda>layer. set_trainable layer False)) (\<lambda>_.
     bindE (compile env m (Named ''rmsprop'') ''categorical_crossentropy''
              [''categorical_accuracy'']) (\<lambda>_.
     bindE (make_train_generator env) (\<lambda>train_generator.
     bindE (step_size train_generator) (\<lambda>step_size_train.
     fit_generator env train_generator step_size_train 50
       [meeshkan_callback env, ModelCheckpoint weights_path]))))"

definition EPOCHS :: nat where
  "EPOCHS = 10"

definition TEST_INTERVAL :: nat where
  "TEST_INTERVAL = 1"

text \<open>Lines 119 to 128: one pass of the fine-tuning loop.\<close>

definition fine_tune_step ::
  "env \<Rightarrow> generator \<Rightarrow> nat \<Rightarrow> generator \<Rightarrow> nat \<Rightarrow> nat \<Rightarrow> unit prog" where
  "fine_tune_step env train_generator step_size_train test_generator step_size_test i =
     bindE (fit_generator env train_generator step_size_train 1
              [meeshkan_callback env, ModelCheckpoint weights_path]) (\<lambda>_.
     bindE (liftE (py_mod i TEST_INTERVAL)) (\<lambda>r.
       if r = 0 then
         bindE (evaluate_generator env test_generator step_size_test) (\<lambda>(test_loss, test_accuracy).
           report_scalar env [(''Test loss'', test_loss), (''Test accuracy'', test_accuracy)])
       else returnE ()))"

definition fine_tuning ::
  "env \<Rightarrow> generator \<Rightarrow> nat \<Rightarrow> generator \<Rightarrow> nat \<Rightarrow> unit prog" where
  "fine_tuning env train_generator step_size_train test_generator step_size_test =
     forE [0 ..< EPOCHS]
       (fine_tune_step env train_generator step_size_train test_generator step_size_test)"

definition print_layer :: "nat \<times> nat \<Rightarrow> unit prog" where
  "print_layer = (\<lambda>(i, layer) w. print [PInt i, PStr (lname (heap w ! layer))] w)"

text \<open>Lines 92 to 113: print the layers, refreeze, recompile, make the generators.\<close>

definition prepare_fine_tuning ::
  "env \<Rightarrow> base_model \<Rightarrow> model \<Rightarrow> ((generator \<times> nat) \<times> (generator \<times> nat)) prog" where
  "prepare_fine_tuning env base m =
     bindE (forE (enumerate 0 (blayers base)) print_layer) (\<lambda>_.
     bindE (forE (take 249 (mlayers m)) (\<lambda>layer. set_trainable layer False)) (\<lambda>_.
     bindE (forE (drop 249 (mlayers m)) (\<lambda>layer. set_trainable layer True)) (\<lambda>_.
     bindE (compile env m (SGD (1 / 10000) (9 / 10)) ''categorical_crossentropy''
              [''categorical_accuracy'']) (\<lambda>_.
     bindE (make_train_generator env) (\<lambda>train_generator.
     bindE (step_size train_generator) (\<lambda>step_size_train.
     bindE (make_test_generator env) (\<lambda>test_generator.
     bindE (step_size test_generator) (\<lambda>step_size_test.
     returnE ((train_generator, step_size_train), (test_generator, step_size_test))))))))))"

text \<open>Lines 130 to 133: save the model, evaluate once more, print.\<close>

definition final_path :: "rat \<Rightarrow> string" where
  "final_path t = ''tmnt_koopa_'' @ show_int (py_int t) @ ''.h5''"

definition finish :: "env \<Rightarrow> generator \<Rightarrow> nat \<Rightarrow> unit prog" where
  "finish env test_generator step_size_test =
     bindE (time_millis env) (\<lambda>t.
     bindE (model_save env (final_path t)) (\<lambda>_.
     bindE (evaluate_generator env test_generator step_size_test) (\<lambda>(l, a).
     print [PStr ''test loss and accuracy'', PFloats [l, a]])))"

definition script :: "env \<Rightarrow> unit prog" where
  "script env =
     bindE (build_model env) (\<lambda>(base, m).
     bindE (phase_one env base m) (\<lambda>_.
     bindE (prepare_fine_tuning env base m) (\<lambda>((train_generator, step_size_train),
                                               (test_generator, step_size_test)).
     bindE (fine_tuning env train_generator step_size_train test_generator step_size_test) (\<lambda>_.
     finish env test_generator step_size_test))))"

section \<open>Properties of runs\<close>

text \<open>
  A program only ever appends to the trace. \<open>spec m S\<close> says that every run of \<open>m\<close>, started
  at a trace of length \<open>k\<close>, appends some events \<open>new\<close> with \<open>S k r new\<close>, where \<open>r\<close> is the
  exception the run ends with, if any.
\<close>

definition err :: "exn + 'a \<Rightarrow> exn option" where
  "err r = (case r of Inl e \<Rightarrow> Some e | Inr x \<Rightarrow> None)"

text \<open>\<open>can_return m x\<close>: some run of \<open>m\<close> returns \<open>x\<close>.\<close>

definition can_return :: "'a prog \<Rightarrow> 'a \<Rightarrow> bool" where
  "can_return m x = (\<exists>w w'. m w = (Inr x, w'))"

type_synonym property = "nat \<Rightarrow> exn option \<Rightarrow> (call \<times> outcome) list \<Rightarrow> bool"

definition spec :: "'a prog \<Rightarrow> property \<Rightarrow> bool" where
  "spec m S =
     (\<forall>w. \<exists>new. trace (snd (m w)) = trace w @ new \<and> S (length (trace w)) (err (fst (m w))) new)"

text \<open>Properties that compose along a sequence of statements.\<close>

definition sequential :: "property \<Rightarrow> bool" where
  "sequential S =
     ((\<forall>k. S k None []) \<and>
      (\<forall>k n1 n2 r. S k None n1 \<longrightarrow> S (k + length n1) r n2 \<longrightarrow> S k r (n1 @ n2)))"

text \<open>A property admits a call when it holds of the call alone, returning or raising.\<close>

definition admits :: "property \<Rightarrow> call \<Rightarrow> bool" where
  "admits S c =
     (\<forall>k. (\<forall>out. (\<forall>e. out \<noteq> Raised e) \<longrightarrow> S k None [(c, out)]) \<and>
          (\<forall>e. S k (Some e) [(c, Raised e)]))"

text \<open>
  The calls the script makes outside \<^verbatim>\<open>on_batch_end\<close>, with the arguments it can pass.
\<close>

definition may_call :: "env \<Rightarrow> call \<Rightarrow> bool" where
  "may_call env c =
     (case c of
        InceptionV3 wts itop \<Rightarrow> wts = ''imagenet'' \<and> \<not> itop
      | NewLayer k \<Rightarrow>
          k \<in> set [GlobalAveragePooling2D, Dense 1024 ''relu'', Dense 512 ''relu'',
                   Dense 32 ''relu'', Dense 2 ''softmax'']
      | NewModel i out \<Rightarrow> True
      | Compile opt l ms fl \<Rightarrow> True
      | FlowFromDirectory d ts cm bs clm sh \<Rightarrow> (d = ''./train/'' \<or> d = ''./test/'') \<and> bs = 32
      | FitGenerator d s e \<Rightarrow>
          d = ''./train/'' \<and> (\<exists>k. s = image_count env k d div 32) \<and> (e = 50 \<or> e = 1)
      | TrainBatch e b \<Rightarrow> False
      | ReportScalar args \<Rightarrow> map fst args = [''Test loss'', ''Test accuracy'']
      | Print xs \<Rightarrow> True
      | SaveWeights p \<Rightarrow> (\<exists>e. 1 \<le> e \<and> e \<le> 50 \<and> p = weights_path e)
      | EvaluateGenerator d s \<Rightarrow> d = ''./test/'' \<and> (\<exists>k. s = image_count env k d div 32)
      | Time \<Rightarrow> True
      | ModelSave p \<Rightarrow> (\<exists>k. p = final_path (millis env k)))"

section \<open>Classes of calls and projections of the trace\<close>

text \<open>The two reports of \<^verbatim>\<open>on_batch_end\<close>, recognised by their metric names.\<close>

fun is_train_report :: "call \<Rightarrow> bool" where
  "is_train_report (ReportScalar [(name, x)]) = (name = ''Train loss'' \<or> name = ''Train accuracy'')"
| "is_train_report c = False"

text \<open>The framework's training step for one minibatch.\<close>

fun is_train_batch :: "call \<Rightarrow> bool" where
  "is_train_batch (TrainBatch e b) = True"
| "is_train_batch c = False"

text \<open>The calls made while \<^verbatim>\<open>fit_generator\<close> runs.\<close>

fun in_training :: "call \<Rightarrow> bool" where
  "in_training (TrainBatch e b) = True"
| "in_training (SaveWeights p) = True"
| "in_training (Print xs) = True"
| "in_training c = is_train_report c"

text \<open>An exception that the handler of \<^verbatim>\<open>on_batch_end\<close> catches.\<close>

definition guarded :: "call \<Rightarrow> exn \<Rightarrow> bool" where
  "guarded c e = (is_train_report c \<and> is_Exception e)"

definition emits :: "(call \<Rightarrow> bool) \<Rightarrow> property" where
  "emits A k r new = (\<forall>x \<in> set new. A (fst x))"

text \<open>A stretch of the trace in which every exception raised was caught.\<close>

definition quiet :: "(call \<times> outcome) list \<Rightarrow> bool" where
  "quiet tr = (\<forall>(c, out) \<in> set tr. \<forall>e. out = Raised e \<longrightarrow> guarded c e)"

text \<open>
  Either the run returns and every exception was caught, or it ends with the exception of
  its last call and every earlier exception was caught.
\<close>

definition contained :: property where
  "contained k r new =
     (case r of
        None \<Rightarrow> quiet new
      | Some e \<Rightarrow> (\<exists>c pre. new = pre @ [(c, Raised e)] \<and> quiet pre))"

text \<open>The files a call writes, and the directories a call scans.\<close>

fun written :: "call \<Rightarrow> string list" where
  "written (SaveWeights p) = [p]"
| "written (ModelSave p) = [p]"
| "written c = []"

definition files_written :: "(call \<times> outcome) list \<Rightarrow> string list" where
  "files_written tr = concat (map (\<lambda>x. written (fst x)) tr)"

definition keeps_heap :: "'a prog \<Rightarrow> bool" where
  "keeps_heap m = (\<forall>w. heap (snd (m w)) = heap w)"

text \<open>The events of one training epoch that completes: training calls, one checkpoint.\<close>

definition epoch_events :: "nat \<Rightarrow> (call \<times> outcome) list \<Rightarrow> bool" where
  "epoch_events e new =
     ((\<forall>x \<in> set new. in_training (fst x)) \<and> files_written new = [weights_path (Suc e)])"

text \<open>The events of one pass of the fine-tuning loop that completes.\<close>

definition round_events ::
  "string \<Rightarrow> nat \<Rightarrow> string \<Rightarrow> nat \<Rightarrow> (call \<times> outcome) list \<Rightarrow> bool" where
  "round_events d st d' se new =
     (\<exists>inner l a.
        new = (FitGenerator d st 1, Done) # inner @
              [(EvaluateGenerator d' se, LossAcc l a),
               (ReportScalar [(''Test loss'', l), (''Test accuracy'', a)], Done)] \<and>
        (\<forall>x \<in> set inner. in_training (fst x)) \<and>
        files_written inner = [weights_path 1])"


section \<open>Example environments\<close>

definition logs_ok :: logs where
  "logs_ok = [''loss'' \<mapsto> PyNum (1 / 2), ''categorical_accuracy'' \<mapsto> PyNum (3 / 4)]"

definition env_ok :: env where
  "env_ok =
     \<lparr>raises = (\<lambda>k c. None),
      inception_layers = [''input_1'', ''conv2d_1'', ''mixed10''],
      auto_name = (\<lambda>k. ''layer''),
      image_count = (\<lambda>k d. 40),
      batch_logs = (\<lambda>k. logs_ok),
      evaluation = (\<lambda>k. (1 / 4, 7 / 8)),
      millis = (\<lambda>k. 1234567 / 8)\<rparr>"

text \<open>A metrics agent that raises the given exception on every report.\<close>

definition sink_raising :: "exn \<Rightarrow> nat \<Rightarrow> call \<Rightarrow> exn option" where
  "sink_raising e k c = (case c of ReportScalar args \<Rightarrow> Some e | _ \<Rightarrow> None)"

definition env_sink_down :: env where
  "env_sink_down = env_ok\<lparr>raises := sink_raising (OtherException ''agent unreachable'')\<rparr>"

definition env_interrupt :: env where
  "env_interrupt = env_ok\<lparr>raises := sink_raising (BaseExceptionOnly ''KeyboardInterrupt'')\<rparr>"

text \<open>A metrics agent that accepts the per-minibatch reports and raises on the test report.\<close>

definition env_test_sink_down :: env where
  "env_test_sink_down =
     env_ok\<lparr>raises := (\<lambda>k c. if is_train_report c then None
                              else sink_raising (OtherException ''agent unreachable'') k c)\<rparr>"

text \<open>The directory \<^verbatim>\<open>./train/\<close> is missing.\<close>

definition env_no_train_dir :: env where
  "env_no_train_dir =
     env_ok\<lparr>raises := (\<lambda>k c. case c of
        FlowFromDirectory d ts cm bs clm sh \<Rightarrow>
          if d = ''./train/'' then Some (OtherException ''No such file or directory'') else None
      | _ \<Rightarrow> None)\<rparr>"

fun is_fit :: "call \<Rightarrow> bool" where
  "is_fit (FitGenerator d s e) = True"
| "is_fit c = False"

text \<open>The heap after \<^verbatim>\<open>for layer in ls: layer.trainable = b\<close>.\<close>

definition set_all :: "nat list \<Rightarrow> bool \<Rightarrow> layer list \<Rightarrow> layer list" where
  "set_all as b h = fold (\<lambda>a h. h[a := (h ! a)\<lparr>trainable := b\<rparr>]) as h"

fun is_construction :: "call \<Rightarrow> bool" where
  "is_construction (InceptionV3 wts itop) = True"
| "is_construction (NewLayer k) = True"
| "is_construction (NewModel i out) = True"
| "is_construction c = False"

fun is_print :: "call \<Rightarrow> bool" where
  "is_print (Print xs) = True"
| "is_print c = False"

fun is_compile :: "call \<Rightarrow> bool" where
  "is_compile (Compile opt l ms fl) = True"
| "is_compile c = False"

definition pretrained_layer :: "string \<Rightarrow> layer" where
  "pretrained_layer s = \<lparr>lname = s, kind = Pretrained, trainable = True\<rparr>"

definition head_kinds :: "layer_kind list" where
  "head_kinds = [GlobalAveragePooling2D, Dense 1024 ''relu'', Dense 512 ''relu'',
                 Dense 32 ''relu'', Dense 2 ''softmax'']"

definition flow_call :: "string \<Rightarrow> call" where
  "flow_call d = FlowFromDirectory d (229, 229) ''rgb'' 32 ''categorical'' True"

definition compile_call :: "optimizer \<Rightarrow> bool list \<Rightarrow> call" where
  "compile_call opt flags = Compile opt ''categorical_crossentropy'' [''categorical_accuracy''] flags"

text \<open>The compilations and the training runs of a trace, in order.\<close>

definition phases :: "(call \<times> outcome) list \<Rightarrow> call list" where
  "phases tr = filter (\<lambda>c. is_compile c \<or> is_fit c) (map fst tr)"

fun scanned :: "call \<Rightarrow> string list" where
  "scanned (FlowFromDirectory d ts cm bs clm sh) = [d]"
| "scanned c = []"

definition dirs_read :: "(call \<times> outcome) list \<Rightarrow> string list" where
  "dirs_read tr = concat (map (\<lambda>x. scanned (fst x)) tr)"

text \<open>
  The learning rate an optimizer runs with. An optimizer given by name is built with the
  framework's defaults; the framework documents 0.001 as the default learning rate of
  \<^verbatim>\<open>rmsprop\<close>. The script itself only fixes the rate of the second optimizer.
\<close>

fun learning_rate :: "optimizer \<Rightarrow> rat option" where
  "learning_rate (SGD lr momentum) = Some lr"
| "learning_rate (Named nm) = (if nm = ''rmsprop'' then Some (1 / 1000) else None)"

text \<open>Both directories hold 20 images, fewer than one batch.\<close>

definition env_small :: env where
  "env_small = env_ok\<lparr>image_count := (\<lambda>k d. 20)\<rparr>"

definition train_gen :: generator where
  "train_gen = \<lparr>directory = ''./train/'', n = 40, batch_size = 32\<rparr>"

definition test_gen :: generator where
  "test_gen = \<lparr>directory = ''./test/'', n = 40, batch_size = 32\<rparr>"

text \<open>Every checkpoint write fails: the disk is full.\<close>

definition env_disk_full :: env where
  "env_disk_full =
     env_ok\<lparr>raises := (\<lambda>k c. case c of
        SaveWeights p \<Rightarrow> Some (OtherException ''No space left on device'')
      | _ \<Rightarrow> None)\<rparr>"

text \<open>
  What follows a minibatch in a stretch of the trace that starts at position \<open>k\<close>: when the
  training step returned, its logs hold numbers for the loss and the accuracy, and the agent
  raises on neither report, the next two events are those two reports, accepted, and the
  event after them is no report of the callback. A stretch never starts with such a report.
\<close>

definition reports_follow :: "env \<Rightarrow> property" where
  "reports_follow env k r new =
     ((new = [] \<or> \<not> is_train_report (fst (hd new))) \<and>
      (\<forall>i e b x y.
         i < length new \<and> new ! i = (TrainBatch e b, Done) \<and>
         batch_logs env (k + i) ''loss'' = Some (PyNum x) \<and>
         batch_logs env (k + i) ''categorical_accuracy'' = Some (PyNum y) \<and>
         raises env (k + i + 1) (ReportScalar [(''Train loss'', x)]) = None \<and>
         raises env (k + i + 2) (ReportScalar [(''Train accuracy'', y)]) = None \<longrightarrow>
         i + 2 < length new \<and>
         new ! (i + 1) = (ReportScalar [(''Train loss'', x)], Done) \<and>
         new ! (i + 2) = (ReportScalar [(''Train accuracy'', y)], Done) \<and>
         (i + 3 < length new \<longrightarrow> \<not> is_train_report (fst (new ! (i + 3))))))"

section \<open>Decimal numerals, stated apart from the functions that print them\<close>

definition is_digit :: "char \<Rightarrow> bool" where
  "is_digit c = (c \<in> set ''0123456789'')"

text \<open>The value of a digit character, and of a string of digits read as a decimal numeral.\<close>

definition digit_of :: "char \<Rightarrow> nat" where
  "digit_of c = length (takeWhile (\<lambda>d. d \<noteq> c) ''0123456789'')"

definition numeral_value :: "string \<Rightarrow> nat" where
  "numeral_value ds = foldl (\<lambda>v c. 10 * v + digit_of c) 0 ds"

text \<open>
  \<open>s\<close> is the decimal numeral of the integer \<open>i\<close>: an optional minus sign, then digits with
  no leading zero, whose value is the magnitude of \<open>i\<close>.
\<close>

definition decimal_numeral :: "int \<Rightarrow> string \<Rightarrow> bool" where
  "decimal_numeral i s =
     (\<exists>ds. s = (if i < 0 then ''-'' else []) @ ds \<and> ds \<noteq> [] \<and> (\<forall>c \<in> set ds. is_digit c) \<and>
        (hd ds = CHR ''0'' \<longrightarrow> ds = ''0'') \<and> numeral_value ds = nat \<bar>i\<bar>)"

text \<open>\<open>i\<close> is \<open>t\<close> truncated towards zero.\<close>

definition truncation :: "rat \<Rightarrow> int \<Rightarrow> bool" where
  "truncation t i =
     (if 0 \<le> t then of_int i \<le> t \<and> t < of_int i + 1 else t \<le> of_int i \<and> of_int i - 1 < t)"

text \<open>The two decimal digits of a number below 100, with a leading zero below 10.\<close>

definition two_digits :: "nat \<Rightarrow> string" where
  "two_digits e = [''0123456789'' ! (e div 10), ''0123456789'' ! (e mod 10)]"

section \<open>Rules for sequential programs\<close>

lemma err_simps [simp]: "err (Inl e) = Some e" "err (Inr x) = None"
  by (simp_all add: err_def)

lemma spec_returnE: "sequential S \<Longrightarrow> spec (returnE x) S"
  by (simp add: spec_def returnE_def sequential_def)

lemma spec_bindE:
  assumes S: "sequential S" and m: "spec m S" and f: "\<And>x. can_return m x \<Longrightarrow> spec (f x) S"
  shows "spec (bindE m f) S"
  unfolding spec_def
proof
  fix w
  from m obtain n1 where
    n1: "trace (snd (m w)) = trace w @ n1" "S (length (trace w)) (err (fst (m w))) n1"
    unfolding spec_def by blast
  show "\<exists>new. trace (snd (bindE m f w)) = trace w @ new \<and>
          S (length (trace w)) (err (fst (bindE m f w))) new"
  proof (cases "m w")
    case (Pair r w')
    show ?thesis
    proof (cases r)
      case (Inl e)
      with Pair n1 show ?thesis by (auto simp: bindE_def)
    next
      case (Inr x)
      with Pair have "can_return m x" by (auto simp: can_return_def)
      from f [OF this] obtain n2 where
        n2: "trace (snd (f x w')) = trace w' @ n2" "S (length (trace w')) (err (fst (f x w'))) n2"
        unfolding spec_def by blast
      from Pair Inr n1 have w': "trace w' = trace w @ n1" "S (length (trace w)) None n1" by auto
      then have "length (trace w') = length (trace w) + length n1" by simp
      with n2(2) have "S (length (trace w) + length n1) (err (fst (f x w'))) n2" by simp
      with w'(2) S have "S (length (trace w)) (err (fst (f x w'))) (n1 @ n2)"
        unfolding sequential_def by blast
      moreover from n2(1) w'(1) have "trace (snd (f x w')) = trace w @ (n1 @ n2)" by simp
      ultimately show ?thesis using Pair Inr by (auto simp: bindE_def)
    qed
  qed
qed

lemma spec_forE:
  assumes S: "sequential S" and b: "\<And>x. x \<in> set xs \<Longrightarrow> spec (body x) S"
  shows "spec (forE xs body) S"
  using b
proof (induction xs)
  case Nil
  show ?case by (simp add: spec_returnE S)
next
  case (Cons x xs)
  have 1: "spec (body x) S" using Cons.prems by simp
  have 2: "spec (forE xs body) S" using Cons.IH Cons.prems by simp
  show ?case by simp (rule spec_bindE [OF S 1], rule 2)
qed

lemma spec_ext_call: "admits S c \<Longrightarrow> (\<And>x e. shown x \<noteq> Raised e) \<Longrightarrow> spec (ext_call env c res shown) S"
  by (auto simp: spec_def ext_call_def admits_def record_call_def split: option.splits)

lemma spec_ext: "admits S c \<Longrightarrow> spec (ext env c) S"
  unfolding ext_def by (rule spec_ext_call) auto

lemma spec_liftE_Inr: "sequential S \<Longrightarrow> spec (liftE (Inr x)) S"
  by (simp add: spec_def liftE_def sequential_def)

lemma spec_print: "admits S (Print xs) \<Longrightarrow> spec (print xs) S"
  by (auto simp: spec_def print_def admits_def record_call_def)

lemma spec_set_trainable: "sequential S \<Longrightarrow> spec (set_trainable a b) S"
  by (simp add: spec_def set_trainable_def sequential_def)

section \<open>The calls each part of the script can make\<close>

lemma spec_quiet:
  assumes "sequential S" and "\<And>w. trace (snd (m w)) = trace w \<and> err (fst (m w)) = None"
  shows "spec m S"
  using assms by (simp add: spec_def sequential_def)

lemma can_return_ext_call: "can_return (ext_call env c res shown) x \<Longrightarrow> \<exists>k. x = res k"
  by (auto simp: can_return_def ext_call_def split: option.splits)

lemma can_return_make_generator:
  "can_return (make_generator env d) g \<Longrightarrow>
     directory g = d \<and> batch_size g = 32 \<and> (\<exists>k. n g = image_count env k d)"
  unfolding make_generator_def flow_from_directory_def
  by (drule can_return_ext_call) auto

lemma can_return_step_size: "can_return (step_size g) s \<Longrightarrow> s = n g div batch_size g"
  by (auto simp: can_return_def step_size_def liftE_def floordiv_def split: if_splits)

lemma spec_step_size: "sequential S \<Longrightarrow> batch_size g = 32 \<Longrightarrow> spec (step_size g) S"
  by (simp add: step_size_def floordiv_def spec_liftE_Inr)

lemma spec_make_generator:
  "admits S (FlowFromDirectory d (229, 229) ''rgb'' 32 ''categorical'' True) \<Longrightarrow>
     spec (make_generator env d) S"
  unfolding make_generator_def flow_from_directory_def by (rule spec_ext_call) auto

lemma spec_evaluate_generator:
  "admits S (EvaluateGenerator (directory g) s) \<Longrightarrow> spec (evaluate_generator env g s) S"
  unfolding evaluate_generator_def by (rule spec_ext_call) (auto split: prod.splits)

lemma spec_train_batch:
  assumes S: "sequential S"
    and cb: "\<And>lg. spec (on_batch_end env b lg) S"
    and tb: "admits S (TrainBatch e b)"
  shows "spec (train_batch env [meeshkan_callback env, ModelCheckpoint weights_path] e b) S"
  unfolding train_batch_def meeshkan_callback_def
  by (intro spec_bindE [OF S] spec_ext_call tb) (auto intro!: spec_bindE [OF S] spec_returnE [OF S] cb)

lemma spec_train_epoch:
  assumes S: "sequential S"
    and tb: "\<And>b. spec (train_batch env [meeshkan_callback env, ModelCheckpoint weights_path] e b) S"
    and sv: "admits S (SaveWeights (weights_path (Suc e)))"
  shows "spec (train_epoch env [meeshkan_callback env, ModelCheckpoint weights_path] st e) S"
  unfolding train_epoch_def
  by (intro spec_bindE [OF S] spec_forE [OF S] tb)
     (auto simp: meeshkan_callback_def intro!: spec_bindE [OF S] spec_returnE [OF S] spec_ext sv)

lemma spec_fit_generator:
  assumes S: "sequential S"
    and tb: "\<And>e b. spec (train_batch env [meeshkan_callback env, ModelCheckpoint weights_path] e b) S"
    and fg: "admits S (FitGenerator (directory g) st ep)"
    and sv: "\<And>e. e < ep \<Longrightarrow> admits S (SaveWeights (weights_path (Suc e)))"
  shows "spec (fit_generator env g st ep [meeshkan_callback env, ModelCheckpoint weights_path]) S"
  unfolding fit_generator_def
  by (intro spec_bindE [OF S] spec_forE [OF S] spec_ext fg spec_train_epoch [OF S] tb sv) simp

lemma spec_fine_tune_step:
  assumes S: "sequential S"
    and tb: "\<And>e b. spec (train_batch env [meeshkan_callback env, ModelCheckpoint weights_path] e b) S"
    and fg: "admits S (FitGenerator (directory tg) st 1)"
    and sv: "admits S (SaveWeights (weights_path (Suc 0)))"
    and ev: "admits S (EvaluateGenerator (directory eg) se)"
    and rp: "\<And>l a. admits S (ReportScalar [(''Test loss'', l), (''Test accuracy'', a)])"
  shows "spec (fine_tune_step env tg st eg se i) S"
proof -
  have fit: "spec (fit_generator env tg st 1 [meeshkan_callback env, ModelCheckpoint weights_path]) S"
    by (rule spec_fit_generator [OF S tb fg]) (simp add: sv)
  have test: "spec (bindE (evaluate_generator env eg se)
      (\<lambda>(test_loss, test_accuracy).
         report_scalar env [(''Test loss'', test_loss), (''Test accuracy'', test_accuracy)])) S"
    by (rule spec_bindE [OF S spec_evaluate_generator [OF ev]])
       (auto simp: report_scalar_def intro: spec_ext rp)
  show ?thesis
    unfolding fine_tune_step_def py_mod_def TEST_INTERVAL_def
    by (rule spec_bindE [OF S fit], simp, rule spec_bindE [OF S spec_liftE_Inr [OF S]])
       (simp add: test spec_returnE [OF S])
qed

lemma spec_fine_tuning:
  assumes S: "sequential S"
    and tb: "\<And>e b. spec (train_batch env [meeshkan_callback env, ModelCheckpoint weights_path] e b) S"
    and fg: "admits S (FitGenerator (directory tg) st 1)"
    and sv: "admits S (SaveWeights (weights_path (Suc 0)))"
    and ev: "admits S (EvaluateGenerator (directory eg) se)"
    and rp: "\<And>l a. admits S (ReportScalar [(''Test loss'', l), (''Test accuracy'', a)])"
  shows "spec (fine_tuning env tg st eg se) S"
  unfolding fine_tuning_def
  by (rule spec_forE [OF S]) (rule spec_fine_tune_step [OF S tb fg sv ev rp])

lemma can_return_bindE: "can_return (bindE m f) y \<Longrightarrow> \<exists>x. can_return m x \<and> can_return (f x) y"
proof -
  assume "can_return (bindE m f) y"
  then obtain w w' where b: "bindE m f w = (Inr y, w')" unfolding can_return_def by blast
  obtain r w1 where m: "m w = (r, w1)" by (cases "m w")
  show ?thesis
  proof (cases r)
    case (Inl e)
    with b m show ?thesis by (simp add: bindE_def)
  next
    case (Inr x)
    with b m have "f x w1 = (Inr y, w')" by (simp add: bindE_def)
    with m Inr show ?thesis unfolding can_return_def by blast
  qed
qed

lemma can_return_returnE: "can_return (returnE x) y \<Longrightarrow> y = x"
  by (simp add: can_return_def returnE_def)

lemma can_return_bindE_elim:
  assumes "can_return (bindE m f) y"
  obtains x where "can_return m x" "can_return (f x) y"
  using can_return_bindE [OF assms] by blast

lemma can_return_prepare_fine_tuning:
  assumes "can_return (prepare_fine_tuning env base m) ((tg, st), (eg, se))"
  shows "directory tg = ''./train/'' \<and> (\<exists>k. st = image_count env k ''./train/'' div 32) \<and>
         directory eg = ''./test/'' \<and> (\<exists>k. se = image_count env k ''./test/'' div 32)"
proof -
  from assms obtain g1 s1 g2 s2 where
    g1: "can_return (make_generator env ''./train/'') g1" and s1: "can_return (step_size g1) s1" and
    g2: "can_return (make_generator env ''./test/'') g2" and s2: "can_return (step_size g2) s2" and
    r: "can_return (returnE ((g1, s1), (g2, s2))) ((tg, st), (eg, se))"
    unfolding prepare_fine_tuning_def make_train_generator_def make_test_generator_def
    by (elim can_return_bindE_elim) blast
  from can_return_returnE [OF r] have eq: "tg = g1" "st = s1" "eg = g2" "se = s2" by simp_all
  from can_return_make_generator [OF g1] can_return_step_size [OF s1]
       can_return_make_generator [OF g2] can_return_step_size [OF s2] eq
  show ?thesis by auto
qed

lemma spec_InceptionV3_app:
  "sequential S \<Longrightarrow> admits S (InceptionV3 wts itop) \<Longrightarrow> spec (InceptionV3_app env wts itop) S"
  unfolding InceptionV3_app_def
  by (rule spec_bindE, assumption, erule spec_ext, rule spec_quiet) auto

lemma spec_apply_layer:
  "sequential S \<Longrightarrow> admits S (NewLayer k) \<Longrightarrow> spec (apply_layer env k x) S"
  unfolding apply_layer_def
  by (rule spec_bindE, assumption, rule spec_ext_call, assumption, simp, rule spec_quiet) auto

lemma spec_Model:
  "sequential S \<Longrightarrow> admits S (NewModel i out) \<Longrightarrow> spec (Model env base i out) S"
  unfolding Model_def
  by (rule spec_bindE, assumption, erule spec_ext, erule spec_returnE)

lemma spec_compile:
  "(\<And>fl. admits S (Compile opt l ms fl)) \<Longrightarrow> spec (compile env m opt l ms) S"
proof -
  assume a: "\<And>fl. admits S (Compile opt l ms fl)"
  have "\<And>fl. spec (ext env (Compile opt l ms fl)) S" by (rule spec_ext [OF a])
  then show ?thesis unfolding spec_def compile_def by blast
qed

lemma spec_build_model:
  assumes S: "sequential S" and mc: "\<And>c. may_call env c \<Longrightarrow> admits S c"
  shows "spec (build_model env) S"
  unfolding build_model_def
  by (intro spec_bindE [OF S] spec_InceptionV3_app [OF S] spec_apply_layer [OF S]
        spec_Model [OF S] spec_returnE [OF S] mc)
     (simp_all add: may_call_def)

lemma spec_phase_one:
  assumes S: "sequential S"
    and tb: "\<And>e b. spec (train_batch env [meeshkan_callback env, ModelCheckpoint weights_path] e b) S"
    and mc: "\<And>c. may_call env c \<Longrightarrow> admits S c"
  shows "spec (phase_one env base m) S"
proof -
  have fit: "spec (fit_generator env g s 50 [meeshkan_callback env, ModelCheckpoint weights_path]) S"
    if "can_return (make_train_generator env) g" "can_return (step_size g) s" for g s
  proof -
    from that have g: "directory g = ''./train/''" "\<exists>k. s = image_count env k ''./train/'' div 32"
      by (auto simp: make_train_generator_def dest!: can_return_make_generator can_return_step_size)
    show ?thesis
    proof (rule spec_fit_generator [OF S tb]; rule mc)
      show "may_call env (FitGenerator (directory g) s 50)"
        using g by (simp add: may_call_def)
      show "may_call env (SaveWeights (weights_path (Suc e)))" if "e < 50" for e
        using that unfolding may_call_def by (simp, intro exI [of _ "Suc e"]) simp
    qed
  qed
  have ss: "spec (step_size g) S" if "can_return (make_train_generator env) g" for g
    using that by (auto simp: make_train_generator_def dest!: can_return_make_generator
                     intro: spec_step_size [OF S])
  show ?thesis
    unfolding phase_one_def
    by (intro spec_bindE [OF S] spec_forE [OF S] spec_set_trainable [OF S] spec_compile mc fit ss)
       (auto simp: may_call_def make_train_generator_def intro!: spec_make_generator mc)
qed

lemma spec_prepare_fine_tuning:
  assumes S: "sequential S" and mc: "\<And>c. may_call env c \<Longrightarrow> admits S c"
  shows "spec (prepare_fine_tuning env base m) S"
proof -
  have ss: "spec (step_size g) S" if "can_return (make_generator env d) g" for g d
    using that by (auto dest!: can_return_make_generator intro: spec_step_size [OF S])
  have pl: "spec (print_layer x) S" for x
  proof -
    have "\<And>xs. spec (print xs) S" by (rule spec_print, rule mc) (simp add: may_call_def)
    then show ?thesis unfolding spec_def print_layer_def by (auto split: prod.splits)
  qed
  show ?thesis
    unfolding prepare_fine_tuning_def make_train_generator_def make_test_generator_def
    by (intro spec_bindE [OF S] spec_forE [OF S] spec_set_trainable [OF S] spec_compile mc
          spec_make_generator spec_returnE [OF S] pl ss)
       (auto simp: may_call_def)
qed

lemma spec_finish:
  assumes S: "sequential S" and mc: "\<And>c. may_call env c \<Longrightarrow> admits S c"
    and g: "directory eg = ''./test/''" "\<exists>k. se = image_count env k ''./test/'' div 32"
  shows "spec (finish env eg se) S"
proof -
  have ms: "spec (model_save env (final_path t)) S" if "can_return (time_millis env) t" for t
  proof -
    from that have "\<exists>k. t = millis env k"
      unfolding time_millis_def by (rule can_return_ext_call)
    then show ?thesis
      unfolding model_save_def by (intro spec_ext mc) (auto simp: may_call_def)
  qed
  have tm: "spec (time_millis env) S"
    unfolding time_millis_def by (rule spec_ext_call, rule mc) (auto simp: may_call_def)
  have ev: "spec (evaluate_generator env eg se) S"
    by (rule spec_evaluate_generator, rule mc) (use g in \<open>auto simp: may_call_def\<close>)
  have pr: "spec (print xs) S" for xs
    by (rule spec_print, rule mc) (simp add: may_call_def)
  show ?thesis
    unfolding finish_def
    by (intro spec_bindE [OF S] tm ms ev) (auto intro: pr)
qed

lemma spec_script:
  assumes S: "sequential S"
    and tb: "\<And>e b. spec (train_batch env [meeshkan_callback env, ModelCheckpoint weights_path] e b) S"
    and mc: "\<And>c. may_call env c \<Longrightarrow> admits S c"
  shows "spec (script env) S"
proof -
  have tail: "spec (bindE (fine_tuning env tg st eg se) (\<lambda>_. finish env eg se)) S"
    if "can_return (prepare_fine_tuning env base m) ((tg, st), (eg, se))" for base m tg st eg se
  proof -
    note g = can_return_prepare_fine_tuning [OF that]
    have ft: "spec (fine_tuning env tg st eg se) S"
      by (rule spec_fine_tuning [OF S tb]; rule mc) (use g in \<open>auto simp: may_call_def\<close>)
    show ?thesis
      by (rule spec_bindE [OF S ft]) (use g in \<open>auto intro!: spec_finish [OF S mc]\<close>)
  qed
  show ?thesis
    unfolding script_def
    by (intro spec_bindE [OF S] spec_build_model [OF S mc])
       (auto intro!: spec_bindE [OF S] spec_phase_one [OF S tb mc]
          spec_prepare_fine_tuning [OF S mc] tail)
qed

lemma sequential_emits: "sequential (emits A)"
  by (auto simp: sequential_def emits_def)

lemma admits_emits: "A c \<Longrightarrow> admits (emits A) c"
  by (simp add: admits_def emits_def)

section \<open>The callback and its handler\<close>

lemma quiet_append: "quiet (xs @ ys) = (quiet xs \<and> quiet ys)"
  by (auto simp: quiet_def)

lemma sequential_contained: "sequential contained"
  unfolding sequential_def
proof (intro conjI allI impI)
  fix k show "contained k None []" by (simp add: contained_def quiet_def)
next
  fix k n1 n2 r
  assume 1: "contained k None n1" and 2: "contained (k + length n1) r n2"
  show "contained k r (n1 @ n2)"
  proof (cases r)
    case None
    with 1 2 show ?thesis by (simp add: contained_def quiet_append)
  next
    case (Some e)
    with 2 obtain c pre where "n2 = pre @ [(c, Raised e)]" "quiet pre"
      by (auto simp: contained_def)
    with 1 have "n1 @ n2 = (n1 @ pre) @ [(c, Raised e)] \<and> quiet (n1 @ pre)"
      by (simp add: quiet_append contained_def)
    with Some show ?thesis unfolding contained_def by (simp only: option.case) blast
  qed
qed

lemma admits_contained: "admits contained c"
  by (auto simp: admits_def contained_def quiet_def)

lemmas on_batch_end_defs =
  on_batch_end_def tryE_def bindE_def liftE_def getitem_def report_scalar_def ext_def
  ext_call_def print_def record_call_def

lemma py_float_Exception: "py_float v = Inl e \<Longrightarrow> is_Exception e"
  by (cases v) auto

lemma spec_on_batch_end_emits:
  assumes "\<And>x. A (ReportScalar [(''Train loss'', x)])"
    and "\<And>y. A (ReportScalar [(''Train accuracy'', y)])"
    and "\<And>e. A (Print [PExn e])"
  shows "spec (on_batch_end env b lg) (emits A)"
  unfolding spec_def emits_def
proof
  fix w
  show "\<exists>new. trace (snd (on_batch_end env b lg w)) = trace w @ new \<and> (\<forall>x\<in>set new. A (fst x))"
    using assms
    by (cases "lg ''loss''"; cases "lg ''categorical_accuracy''";
        cases "py_float (the (lg ''loss''))"; cases "py_float (the (lg ''categorical_accuracy''))")
       (auto simp: on_batch_end_defs split: option.splits dest: py_float_Exception)
qed

lemma spec_on_batch_end_contained: "spec (on_batch_end env b lg) contained"
  unfolding spec_def
proof
  fix w
  show "\<exists>new. trace (snd (on_batch_end env b lg w)) = trace w @ new \<and>
          contained (length (trace w)) (err (fst (on_batch_end env b lg w))) new"
    by (cases "lg ''loss''"; cases "lg ''categorical_accuracy''";
        cases "py_float (the (lg ''loss''))"; cases "py_float (the (lg ''categorical_accuracy''))")
       (auto simp: on_batch_end_defs contained_def quiet_def guarded_def split: option.splits
          dest: py_float_Exception)
qed

lemma script_contained: "spec (script env) contained"
  by (rule spec_script [OF sequential_contained
        spec_train_batch [OF sequential_contained spec_on_batch_end_contained admits_contained]
        admits_contained])

section \<open>The heap and the shape of runs that complete\<close>

lemma files_written_simps [simp]:
  "files_written [] = []"
  "files_written (x # xs) = written (fst x) @ files_written xs"
  "files_written (xs @ ys) = files_written xs @ files_written ys"
  by (simp_all add: files_written_def)

lemma files_written_none: "\<forall>x\<in>set tr. written (fst x) = [] \<Longrightarrow> files_written tr = []"
  by (induction tr) auto

lemma keeps_heap_returnE: "keeps_heap (returnE x)"
  by (simp add: keeps_heap_def returnE_def)

lemma keeps_heap_liftE: "keeps_heap (liftE r)"
  by (simp add: keeps_heap_def liftE_def)

lemma keeps_heap_ext_call: "keeps_heap (ext_call env c res shown)"
  by (simp add: keeps_heap_def ext_call_def record_call_def split: option.splits)

lemma keeps_heap_ext: "keeps_heap (ext env c)"
  by (simp add: ext_def keeps_heap_ext_call)

lemma keeps_heap_print: "keeps_heap (print xs)"
  by (simp add: keeps_heap_def print_def record_call_def)

lemma keeps_heap_bindE: "keeps_heap m \<Longrightarrow> (\<And>x. keeps_heap (f x)) \<Longrightarrow> keeps_heap (bindE m f)"
  unfolding keeps_heap_def bindE_def
proof
  fix w
  assume m: "\<forall>w. heap (snd (m w)) = heap w" and f: "\<And>x. \<forall>w. heap (snd (f x w)) = heap w"
  obtain r w1 where mw: "m w = (r, w1)" by (cases "m w")
  with m have "heap w1 = heap w" by (metis snd_conv)
  with mw f show "heap (snd (case m w of (Inl e, w') \<Rightarrow> (Inl e, w') | (Inr x, w') \<Rightarrow> f x w')) = heap w"
    by (cases r) auto
qed

lemma keeps_heap_tryE: "keeps_heap m \<Longrightarrow> (\<And>e. keeps_heap (h e)) \<Longrightarrow> keeps_heap (tryE m h)"
  unfolding keeps_heap_def tryE_def
proof
  fix w
  assume m: "\<forall>w. heap (snd (m w)) = heap w" and h: "\<And>e. \<forall>w. heap (snd (h e w)) = heap w"
  obtain r w1 where mw: "m w = (r, w1)" by (cases "m w")
  with m have "heap w1 = heap w" by (metis snd_conv)
  with mw h show "heap (snd (case m w of
        (Inl e, w') \<Rightarrow> if is_Exception e then h e w' else (Inl e, w')
      | (Inr x, w') \<Rightarrow> (Inr x, w'))) = heap w"
    by (cases r) auto
qed

lemma keeps_heap_forE: "(\<And>x. x \<in> set xs \<Longrightarrow> keeps_heap (body x)) \<Longrightarrow> keeps_heap (forE xs body)"
  by (induction xs) (simp_all add: keeps_heap_returnE keeps_heap_bindE)

lemma keeps_heap_on_batch_end: "keeps_heap (on_batch_end env b lg)"
  unfolding on_batch_end_def report_scalar_def
  by (intro keeps_heap_tryE keeps_heap_bindE keeps_heap_liftE keeps_heap_ext keeps_heap_print)

lemma keeps_heap_fit_generator:
  "keeps_heap (fit_generator env g st ep [meeshkan_callback env, ModelCheckpoint weights_path])"
  unfolding fit_generator_def train_epoch_def train_batch_def meeshkan_callback_def
  by (intro keeps_heap_bindE keeps_heap_forE keeps_heap_ext keeps_heap_ext_call)
     (auto simp: keeps_heap_returnE keeps_heap_on_batch_end keeps_heap_ext)

lemma keeps_heap_evaluate_generator: "keeps_heap (evaluate_generator env g s)"
  by (simp add: evaluate_generator_def keeps_heap_ext_call)

lemma keeps_heap_fine_tuning: "keeps_heap (fine_tuning env tg st eg se)"
  unfolding fine_tuning_def fine_tune_step_def report_scalar_def
  by (intro keeps_heap_forE keeps_heap_bindE keeps_heap_fit_generator keeps_heap_liftE)
     (auto simp: keeps_heap_returnE intro!: keeps_heap_bindE keeps_heap_evaluate_generator keeps_heap_ext)

lemma keeps_heapD: "keeps_heap m \<Longrightarrow> m w = (r, w') \<Longrightarrow> heap w' = heap w"
  by (metis keeps_heap_def snd_conv)

lemma bindE_InrE:
  assumes "bindE m f w = (Inr y, w'')"
  obtains x w' where "m w = (Inr x, w')" "f x w' = (Inr y, w'')"
  using assms by (auto simp: bindE_def split: prod.splits sum.splits)

lemma ext_call_InrD:
  assumes "ext_call env c res shown w = (Inr x, w')"
  shows "x = res (length (trace w)) \<and> w' = record_call c (shown x) w \<and>
         raises env (length (trace w)) c = None"
  using assms by (auto simp: ext_call_def split: option.splits)

lemma ext_InrD:
  "ext env c w = (Inr x, w') \<Longrightarrow> w' = record_call c Done w \<and> raises env (length (trace w)) c = None"
  unfolding ext_def by (drule ext_call_InrD) simp

lemma spec_InrD:
  assumes "spec m S" "m w = (Inr x, w')"
  obtains new where "trace w' = trace w @ new" "S (length (trace w)) None new"
  using assms unfolding spec_def by (metis err_simps(2) fst_conv snd_conv)

lemma forE_success:
  assumes "forE xs body w = (Inr (), w')"
    and step: "\<And>x w1 w2. x \<in> set xs \<Longrightarrow> body x w1 = (Inr (), w2) \<Longrightarrow>
                 \<exists>new. trace w2 = trace w1 @ new \<and> Q x new"
  shows "\<exists>news. trace w' = trace w @ concat news \<and> list_all2 Q xs news"
  using assms
proof (induction xs arbitrary: w)
  case Nil
  then show ?case by (simp add: returnE_def)
next
  case (Cons x xs)
  from Cons.prems(1) obtain w1 where 1: "body x w = (Inr (), w1)" and 2: "forE xs body w1 = (Inr (), w')"
    by (auto elim!: bindE_InrE)
  from Cons.prems(2) [OF _ 1] obtain new where new: "trace w1 = trace w @ new" "Q x new" by auto
  from Cons.IH [OF 2] Cons.prems(2) obtain news where
    news: "trace w' = trace w1 @ concat news" "list_all2 Q xs news" by auto
  from new news have "trace w' = trace w @ concat (new # news) \<and> list_all2 Q (x # xs) (new # news)"
    by simp
  then show ?case by blast
qed

lemma train_epoch_success:
  assumes "train_epoch env [meeshkan_callback env, ModelCheckpoint weights_path] st e w = (Inr (), w')"
  shows "\<exists>new. trace w' = trace w @ new \<and> epoch_events e new"
proof -
  let ?A = "\<lambda>c. in_training c \<and> written c = []"
  from assms obtain w1 where
    1: "forE [0..<st] (train_batch env [meeshkan_callback env, ModelCheckpoint weights_path] e) w
          = (Inr (), w1)" and
    2: "ext env (SaveWeights (weights_path (Suc e))) w1 = (Inr (), w')"
    unfolding train_epoch_def meeshkan_callback_def
    by (auto elim!: bindE_InrE simp: returnE_def)
  have "spec (forE [0..<st] (train_batch env [meeshkan_callback env, ModelCheckpoint weights_path] e))
          (emits ?A)"
    by (intro spec_forE spec_train_batch sequential_emits spec_on_batch_end_emits admits_emits) simp_all
  from spec_InrD [OF this 1] obtain new where
    new: "trace w1 = trace w @ new" "emits ?A (length (trace w)) None new" by blast
  from ext_InrD [OF 2] have "trace w' = trace w1 @ [(SaveWeights (weights_path (Suc e)), Done)]"
    by (simp add: record_call_def)
  with new have "trace w' = trace w @ (new @ [(SaveWeights (weights_path (Suc e)), Done)])"
    and "epoch_events e (new @ [(SaveWeights (weights_path (Suc e)), Done)])"
    by (auto simp: epoch_events_def emits_def files_written_none)
  then show ?thesis by blast
qed

lemma list_all2_epoch_events:
  "list_all2 epoch_events es news \<Longrightarrow>
     (\<forall>x \<in> set (concat news). in_training (fst x)) \<and>
     files_written (concat news) = map (\<lambda>e. weights_path (Suc e)) es"
  by (induction rule: list_all2_induct) (auto simp: epoch_events_def)

lemma fit_generator_success:
  assumes "fit_generator env g st ep [meeshkan_callback env, ModelCheckpoint weights_path] w = (Inr (), w')"
  shows "\<exists>inner. trace w' = trace w @ (FitGenerator (directory g) st ep, Done) # inner \<and>
           (\<forall>x \<in> set inner. in_training (fst x)) \<and>
           files_written inner = map (\<lambda>e. weights_path (Suc e)) [0..<ep] \<and> heap w' = heap w"
proof -
  from assms obtain w1 where
    1: "ext env (FitGenerator (directory g) st ep) w = (Inr (), w1)" and
    2: "forE [0..<ep] (train_epoch env [meeshkan_callback env, ModelCheckpoint weights_path] st) w1
          = (Inr (), w')"
    unfolding fit_generator_def by (auto elim!: bindE_InrE)
  from forE_success [OF 2, of epoch_events] train_epoch_success obtain news where
    news: "trace w' = trace w1 @ concat news" "list_all2 epoch_events [0..<ep] news" by blast
  from ext_InrD [OF 1] have "trace w1 = trace w @ [(FitGenerator (directory g) st ep, Done)]"
    by (simp add: record_call_def)
  with news list_all2_epoch_events [OF news(2)] keeps_heapD [OF keeps_heap_fit_generator assms]
  show ?thesis by auto
qed

section \<open>Runs of the fine-tuning loop\<close>

lemma fine_tune_step_success:
  assumes "fine_tune_step env tg st eg se i w = (Inr (), w')"
  shows "\<exists>new. trace w' = trace w @ new \<and> round_events (directory tg) st (directory eg) se new"
proof -
  from assms obtain w1 w2 l a where
    1: "fit_generator env tg st 1 [meeshkan_callback env, ModelCheckpoint weights_path] w = (Inr (), w1)" and
    2: "evaluate_generator env eg se w1 = (Inr (l, a), w2)" and
    3: "report_scalar env [(''Test loss'', l), (''Test accuracy'', a)] w2 = (Inr (), w')"
    unfolding fine_tune_step_def py_mod_def TEST_INTERVAL_def
    by (auto elim!: bindE_InrE simp: liftE_def)
  from fit_generator_success [OF 1] obtain inner where
    inner: "trace w1 = trace w @ (FitGenerator (directory tg) st 1, Done) # inner"
      "\<forall>x \<in> set inner. in_training (fst x)" "files_written inner = [weights_path 1]"
    by auto
  from 2 have "trace w2 = trace w1 @ [(EvaluateGenerator (directory eg) se, LossAcc l a)]"
    unfolding evaluate_generator_def by (auto dest!: ext_call_InrD simp: record_call_def)
  moreover from 3 have "trace w' = trace w2 @
      [(ReportScalar [(''Test loss'', l), (''Test accuracy'', a)], Done)]"
    unfolding report_scalar_def by (auto dest!: ext_InrD simp: record_call_def)
  ultimately have "trace w' = trace w @ ((FitGenerator (directory tg) st 1, Done) # inner @
              [(EvaluateGenerator (directory eg) se, LossAcc l a),
               (ReportScalar [(''Test loss'', l), (''Test accuracy'', a)], Done)])"
    using inner(1) by simp
  with inner(2,3) show ?thesis unfolding round_events_def by blast
qed

lemma fine_tuning_success:
  assumes "fine_tuning env tg st eg se w = (Inr (), w')"
  shows "\<exists>news. trace w' = trace w @ concat news \<and>
           list_all2 (\<lambda>i. round_events (directory tg) st (directory eg) se) [0..<EPOCHS] news"
  using assms unfolding fine_tuning_def
  by (rule forE_success) (rule fine_tune_step_success)


lemma rounds_files:
  "list_all2 (\<lambda>i. round_events d st d' se) idx news \<Longrightarrow>
     files_written (concat news) = replicate (length idx) (weights_path 1)"
  by (induction rule: list_all2_induct) (auto simp: round_events_def)

lemma weights_path_1: "weights_path (Suc 0) = ''weights.01.hdf5''"
  by (simp add: weights_path_def format_02d_def decimal.simps)

lemmas run_defs =
  bindE_def returnE_def liftE_def tryE_def ext_call_def ext_def print_def report_scalar_def
  record_call_def fit_generator_def train_epoch_def train_batch_def meeshkan_callback_def
  on_batch_end_def weights_path_def format_02d_def init_def getitem_def script_def
  build_model_def phase_one_def prepare_fine_tuning_def fine_tuning_def fine_tune_step_def
  finish_def InceptionV3_app_def apply_layer_def Model_def set_trainable_def compile_def
  flow_from_directory_def make_generator_def make_train_generator_def make_test_generator_def
  evaluate_generator_def time_millis_def model_save_def step_size_def floordiv_def py_mod_def
  EPOCHS_def TEST_INTERVAL_def print_layer_def final_path_def show_int_def py_int_def
  upt_rec decimal.simps

lemmas env_defs =
  env_ok_def logs_ok_def sink_raising_def env_sink_down_def env_interrupt_def
  env_test_sink_down_def env_no_train_dir_def

section \<open>The metrics callback\<close>

text \<open>
  With numbers in the logs and an agent that raises on neither call, the callback makes
  exactly its two reports and returns.
\<close>

lemma on_batch_end_two_reports:
  assumes "lg ''loss'' = Some (PyNum x)" and "lg ''categorical_accuracy'' = Some (PyNum y)"
    and "raises env (length (trace w)) (ReportScalar [(''Train loss'', x)]) = None"
    and "raises env (Suc (length (trace w))) (ReportScalar [(''Train accuracy'', y)]) = None"
  shows "on_batch_end env batch lg w =
           (Inr (), w\<lparr>trace := trace w @
              [(ReportScalar [(''Train loss'', x)], Done),
               (ReportScalar [(''Train accuracy'', y)], Done)]\<rparr>)"
  using assms by (simp add: on_batch_end_defs)

text \<open>
  The two reports are not always made: when the agent raises on the first report, the
  handler prints the exception and the callback returns normally, so training goes on, and
  the accuracy is never forwarded.
\<close>

theorem on_batch_end_stops_at_first_failure:
  "on_batch_end env_sink_down 0 logs_ok init =
     (Inr (),
      \<lparr>trace = [(ReportScalar [(''Train loss'', 1 / 2)], Raised (OtherException ''agent unreachable'')),
                (Print [PExn (OtherException ''agent unreachable'')], Done)],
       heap = []\<rparr>)"
  by (simp add: on_batch_end_defs env_defs init_def)





section \<open>Failures outside the callback\<close>

text \<open>
  \<^bold>\<open>C7\<close>. Apart from the guarded reports of the callback, no exception is caught anywhere: any
  call that raises, other than a report of the callback raising an instance of
  \<^verbatim>\<open>Exception\<close>, ends the script with that exception, and nothing happens after it.
\<close>

theorem uncaught_failure_ends_script:
  assumes "script env init = (r, w)" and "(c, Raised e) \<in> set (trace w)"
    and "\<not> (is_train_report c \<and> is_Exception e)"
  shows "r = Inl e \<and> last (trace w) = (c, Raised e)"
proof -
  from script_contained [of env] assms(1) obtain new where
    new: "trace w = trace init @ new" "contained (length (trace init)) (err r) new"
    unfolding spec_def by (metis fst_conv snd_conv)
  then have tr: "trace w = new" by (simp add: init_def)
  show ?thesis
  proof (cases r)
    case (Inr u)
    with new(2) have "quiet new" by (simp add: contained_def)
    with assms(2,3) tr show ?thesis by (auto simp: quiet_def guarded_def)
  next
    case (Inl e')
    with new(2) obtain c' pre where pre: "new = pre @ [(c', Raised e')]" "quiet pre"
      by (auto simp: contained_def)
    from pre(2) assms(3) have "(c, Raised e) \<notin> set pre" by (auto simp: quiet_def guarded_def)
    with assms(2) tr pre(1) have "c' = c \<and> e' = e" by auto
    with Inl tr pre(1) show ?thesis by simp
  qed
qed

theorem uncaught_failure_ends_script_witness:
  "(FlowFromDirectory ''./train/'' (229, 229) ''rgb'' 32 ''categorical'' True,
      Raised (OtherException ''No such file or directory''))
     \<in> set (trace (snd (script env_no_train_dir init))) \<and>
   fst (script env_no_train_dir init) = Inl (OtherException ''No such file or directory'') \<and>
   last (trace (snd (script env_no_train_dir init))) =
     (FlowFromDirectory ''./train/'' (229, 229) ''rgb'' 32 ''categorical'' True,
      Raised (OtherException ''No such file or directory''))"
proof -
  have m: "(FlowFromDirectory ''./train/'' (229, 229) ''rgb'' 32 ''categorical'' True,
      Raised (OtherException ''No such file or directory''))
     \<in> set (trace (snd (script env_no_train_dir init)))"
    by (simp add: run_defs env_defs)
  have p: "script env_no_train_dir init =
     (fst (script env_no_train_dir init), snd (script env_no_train_dir init))" by simp
  from uncaught_failure_ends_script [OF p m] m show ?thesis by simp
qed

text \<open>
  \<^bold>\<open>C1\<close>. Every report to the metrics agent should be wrapped in catch-and-print, so that a failure
  of the agent never aborts training. The per-minibatch reports are; the test report of
  line 128 is not. With an agent that accepts the minibatch reports and raises an ordinary
  \<^verbatim>\<open>Exception\<close> on the test report, the script ends with that exception right after the
  first fine-tuning epoch: the report is the last event, only two training runs were
  started (phase one and one fine-tuning epoch), and the model is never saved.
\<close>

theorem sink_failure_at_test_report_aborts:
  "case script env_test_sink_down init of
     (r, w) \<Rightarrow>
       r = Inl (OtherException ''agent unreachable'') \<and>
       last (trace w) =
         (ReportScalar [(''Test loss'', 1 / 4), (''Test accuracy'', 7 / 8)],
          Raised (OtherException ''agent unreachable'')) \<and>
       filter is_fit (map fst (trace w)) =
         [FitGenerator ''./train/'' 1 50, FitGenerator ''./train/'' 1 1]"
  by (simp add: run_defs env_defs)

section \<open>Building the model and freezing layers\<close>

lemma length_set_all [simp]: "length (set_all as b h) = length h"
  unfolding set_all_def by (induction as arbitrary: h) simp_all

lemma set_all_Cons: "set_all (x # xs) b h = set_all xs b (h[x := (h ! x)\<lparr>trainable := b\<rparr>])"
  by (simp add: set_all_def)

lemma trainable_set_all:
  "a < length h \<Longrightarrow> trainable (set_all as b h ! a) = (if a \<in> set as then b else trainable (h ! a))"
proof (induction as arbitrary: h)
  case Nil
  show ?case by (simp add: set_all_def)
next
  case (Cons x xs)
  let ?h = "h[x := (h ! x)\<lparr>trainable := b\<rparr>]"
  from Cons.prems have len: "a < length ?h" by simp
  have upd: "trainable (?h ! a) = (if a = x then b else trainable (h ! a))"
  proof (cases "a = x")
    case True
    with Cons.prems show ?thesis by simp
  next
    case False
    then show ?thesis by simp
  qed
  have "trainable (set_all (x # xs) b h ! a) = trainable (set_all xs b ?h ! a)"
    by (simp only: set_all_Cons)
  also have "\<dots> = (if a \<in> set xs then b else trainable (?h ! a))"
    by (rule Cons.IH [OF len])
  also have "\<dots> = (if a \<in> set (x # xs) then b else trainable (h ! a))"
    using upd by auto
  finally show ?case .
qed

lemma forE_set_trainable:
  "forE as (\<lambda>a. set_trainable a b) w = (Inr (), w\<lparr>heap := set_all as b (heap w)\<rparr>)"
proof (induction as arbitrary: w)
  case Nil
  show ?case by (simp add: returnE_def set_all_def)
next
  case (Cons x xs)
  have "forE (x # xs) (\<lambda>a. set_trainable a b) w =
          forE xs (\<lambda>a. set_trainable a b) (w\<lparr>heap := (heap w)[x := (heap w ! x)\<lparr>trainable := b\<rparr>]\<rparr>)"
    by (simp add: bindE_def) (simp add: set_trainable_def)
  also have "\<dots> = (Inr (), w\<lparr>heap := set_all (x # xs) b (heap w)\<rparr>)"
    by (simp only: Cons.IH set_all_Cons) simp
  finally show ?case .
qed

lemma InceptionV3_app_success:
  assumes "InceptionV3_app env wts itop w = (Inr base, w')"
  shows "base = \<lparr>blayers = [length (heap w) ..< length (heap w) + length (inception_layers env)],
                  binput = BaseInput, boutput = BaseOutput\<rparr> \<and>
         trace w' = trace w @ [(InceptionV3 wts itop, Done)] \<and>
         heap w' = heap w @ map pretrained_layer (inception_layers env)"
proof -
  from assms obtain w1 where 1: "ext env (InceptionV3 wts itop) w = (Inr (), w1)"
    and 2: "(Inr \<lparr>blayers = [length (heap w1) ..< length (heap w1) + length (inception_layers env)],
             binput = BaseInput, boutput = BaseOutput\<rparr>,
        w1\<lparr>heap := heap w1 @
             map (\<lambda>s. \<lparr>lname = s, kind = Pretrained, trainable = True\<rparr>) (inception_layers env)\<rparr>)
        = (Inr base, w')"
    unfolding InceptionV3_app_def by (auto elim!: bindE_InrE)
  from ext_InrD [OF 1] have "w1 = record_call (InceptionV3 wts itop) Done w" by simp
  with 2 show ?thesis by (auto simp: record_call_def pretrained_layer_def [abs_def])
qed

lemma apply_layer_success:
  assumes "apply_layer env k x w = (Inr y, w')"
  shows "y = Applied (length (heap w)) x \<and> trace w' = trace w @ [(NewLayer k, Done)] \<and>
         (\<exists>nm. heap w' = heap w @ [\<lparr>lname = nm, kind = k, trainable = True\<rparr>])"
proof -
  from assms obtain nm w1 where 1: "ext_call env (NewLayer k) (auto_name env) (\<lambda>_. Done) w = (Inr nm, w1)"
    and 2: "(Inr (Applied (length (heap w1)) x),
        w1\<lparr>heap := heap w1 @ [\<lparr>lname = nm, kind = k, trainable = True\<rparr>]\<rparr>) = (Inr y, w')"
    unfolding apply_layer_def by (auto elim!: bindE_InrE)
  from ext_call_InrD [OF 1] have "w1 = record_call (NewLayer k) Done w" by simp
  with 2 show ?thesis by (auto simp: record_call_def)
qed

lemma Model_success:
  assumes "Model env base i out w = (Inr m, w')"
  shows "m = \<lparr>inputs = i, outputs = out, mlayers = layers_of (blayers base) out\<rparr> \<and>
         trace w' = trace w @ [(NewModel i out, Done)] \<and> heap w' = heap w"
proof -
  from assms obtain w1 where 1: "ext env (NewModel i out) w = (Inr (), w1)"
    and 2: "returnE \<lparr>inputs = i, outputs = out, mlayers = layers_of (blayers base) out\<rparr> w1 = (Inr m, w')"
    unfolding Model_def by (auto elim!: bindE_InrE)
  from ext_InrD [OF 1] have "w1 = record_call (NewModel i out) Done w" by simp
  with 2 show ?thesis by (auto simp: record_call_def returnE_def)
qed

lemma build_model_success:
  assumes "build_model env w = (Inr (base, m), w')"
  defines "h0 \<equiv> length (heap w)" and "nb \<equiv> length (inception_layers env)"
  shows "\<exists>hd cons.
           heap w' = heap w @ map pretrained_layer (inception_layers env) @ hd \<and>
           map kind hd = head_kinds \<and> map trainable hd = replicate 5 True \<and>
           base = \<lparr>blayers = [h0 ..< h0 + nb], binput = BaseInput, boutput = BaseOutput\<rparr> \<and>
           m = \<lparr>inputs = BaseInput,
                outputs = Applied (h0 + nb + 4) (Applied (h0 + nb + 3) (Applied (h0 + nb + 2)
                            (Applied (h0 + nb + 1) (Applied (h0 + nb) BaseOutput)))),
                mlayers = [h0 ..< h0 + nb] @ [h0 + nb, h0 + nb + 1, h0 + nb + 2, h0 + nb + 3,
                            h0 + nb + 4]\<rparr> \<and>
           trace w' = trace w @ cons \<and> (\<forall>x \<in> set cons. is_construction (fst x))"
proof -
  from assms(1) obtain b0 w1 x1 w2 x2 w3 x3 w4 x4 w5 x5 w6 m0 w7 where
    s1: "InceptionV3_app env ''imagenet'' False w = (Inr b0, w1)" and
    s2: "apply_layer env GlobalAveragePooling2D (boutput b0) w1 = (Inr x1, w2)" and
    s3: "apply_layer env (Dense 1024 ''relu'') x1 w2 = (Inr x2, w3)" and
    s4: "apply_layer env (Dense 512 ''relu'') x2 w3 = (Inr x3, w4)" and
    s5: "apply_layer env (Dense 32 ''relu'') x3 w4 = (Inr x4, w5)" and
    s6: "apply_layer env (Dense 2 ''softmax'') x4 w5 = (Inr x5, w6)" and
    s7: "Model env b0 (binput b0) x5 w6 = (Inr m0, w7)" and
    s8: "returnE (b0, m0) w7 = (Inr (base, m), w')"
    unfolding build_model_def by (elim bindE_InrE) blast
  from s8 have eq: "base = b0" "m = m0" "w' = w7" by (simp_all add: returnE_def)
  note f1 = InceptionV3_app_success [OF s1]
  note f2 = apply_layer_success [OF s2]
  note f3 = apply_layer_success [OF s3]
  note f4 = apply_layer_success [OF s4]
  note f5 = apply_layer_success [OF s5]
  note f6 = apply_layer_success [OF s6]
  note f7 = Model_success [OF s7]
  from f2 f3 f4 f5 f6 obtain n1 n2 n3 n4 n5 where hp:
    "heap w2 = heap w1 @ [\<lparr>lname = n1, kind = GlobalAveragePooling2D, trainable = True\<rparr>]"
    "heap w3 = heap w2 @ [\<lparr>lname = n2, kind = Dense 1024 ''relu'', trainable = True\<rparr>]"
    "heap w4 = heap w3 @ [\<lparr>lname = n3, kind = Dense 512 ''relu'', trainable = True\<rparr>]"
    "heap w5 = heap w4 @ [\<lparr>lname = n4, kind = Dense 32 ''relu'', trainable = True\<rparr>]"
    "heap w6 = heap w5 @ [\<lparr>lname = n5, kind = Dense 2 ''softmax'', trainable = True\<rparr>]"
    by blast
  let ?hd = "[\<lparr>lname = n1, kind = GlobalAveragePooling2D, trainable = True\<rparr>,
              \<lparr>lname = n2, kind = Dense 1024 ''relu'', trainable = True\<rparr>,
              \<lparr>lname = n3, kind = Dense 512 ''relu'', trainable = True\<rparr>,
              \<lparr>lname = n4, kind = Dense 32 ''relu'', trainable = True\<rparr>,
              \<lparr>lname = n5, kind = Dense 2 ''softmax'', trainable = True\<rparr>]"
  let ?cons = "[(InceptionV3 ''imagenet'' False, Done), (NewLayer GlobalAveragePooling2D, Done),
                (NewLayer (Dense 1024 ''relu''), Done), (NewLayer (Dense 512 ''relu''), Done),
                (NewLayer (Dense 32 ''relu''), Done), (NewLayer (Dense 2 ''softmax''), Done),
                (NewModel BaseInput x5, Done)]"
  have heap: "heap w' = heap w @ map pretrained_layer (inception_layers env) @ ?hd"
    using f1 f7 hp eq by simp
  have len: "length (heap w1) = h0 + nb" using f1 by (simp add: h0_def nb_def)
  have b: "base = \<lparr>blayers = [h0 ..< h0 + nb], binput = BaseInput, boutput = BaseOutput\<rparr>"
    using f1 eq by (simp add: h0_def nb_def)
  have x5: "x5 = Applied (h0 + nb + 4) (Applied (h0 + nb + 3) (Applied (h0 + nb + 2)
                            (Applied (h0 + nb + 1) (Applied (h0 + nb) BaseOutput))))"
    using f1 f2 f3 f4 f5 f6 hp len by simp
  have mm: "m = \<lparr>inputs = BaseInput, outputs = x5,
                mlayers = [h0 ..< h0 + nb] @ [h0 + nb, h0 + nb + 1, h0 + nb + 2, h0 + nb + 3,
                            h0 + nb + 4]\<rparr>"
    using f7 eq b f1 by (simp add: x5)
  have tr: "trace w' = trace w @ ?cons"
    using f1 f2 f3 f4 f5 f6 f7 eq by simp
  have "heap w' = heap w @ map pretrained_layer (inception_layers env) @ ?hd \<and>
           map kind ?hd = head_kinds \<and> map trainable ?hd = replicate 5 True \<and>
           base = \<lparr>blayers = [h0 ..< h0 + nb], binput = BaseInput, boutput = BaseOutput\<rparr> \<and>
           m = \<lparr>inputs = BaseInput,
                outputs = Applied (h0 + nb + 4) (Applied (h0 + nb + 3) (Applied (h0 + nb + 2)
                            (Applied (h0 + nb + 1) (Applied (h0 + nb) BaseOutput)))),
                mlayers = [h0 ..< h0 + nb] @ [h0 + nb, h0 + nb + 1, h0 + nb + 2, h0 + nb + 3,
                            h0 + nb + 4]\<rparr> \<and>
           trace w' = trace w @ ?cons \<and> (\<forall>x \<in> set ?cons. is_construction (fst x))"
    using heap b mm tr by (simp add: head_kinds_def x5 numeral_eq_Suc)
  then show ?thesis by blast
qed

section \<open>The phases of a complete run\<close>

lemma compile_success:
  assumes "compile env m opt l ms w = (Inr (), w')"
  shows "trace w' = trace w @ [(Compile opt l ms (map (\<lambda>a. trainable (heap w ! a)) (mlayers m)), Done)] \<and>
         heap w' = heap w"
  using assms unfolding compile_def by (auto dest!: ext_InrD simp: record_call_def)

lemma make_generator_success:
  assumes "make_generator env d w = (Inr g, w')"
  shows "\<exists>cnt. g = \<lparr>directory = d, n = cnt, batch_size = 32\<rparr> \<and>
           trace w' = trace w @ [(flow_call d, Count cnt)] \<and> heap w' = heap w"
  using assms unfolding make_generator_def flow_from_directory_def flow_call_def
  by (auto dest!: ext_call_InrD simp: record_call_def)

lemma step_size_success:
  assumes "step_size g w = (Inr s, w')" and "batch_size g = 32"
  shows "s = n g div 32 \<and> w' = w"
  using assms by (simp add: step_size_def liftE_def floordiv_def)

lemma phase_one_success:
  assumes "phase_one env base m w = (Inr (), w')"
  shows "\<exists>cnt inner.
           trace w' = trace w @
             [(compile_call (Named ''rmsprop'')
                 (map (\<lambda>a. trainable (set_all (blayers base) False (heap w) ! a)) (mlayers m)), Done),
              (flow_call ''./train/'', Count cnt),
              (FitGenerator ''./train/'' (cnt div 32) 50, Done)] @ inner \<and>
           (\<forall>x \<in> set inner. in_training (fst x)) \<and>
           files_written inner = map (\<lambda>e. weights_path (Suc e)) [0..<50] \<and>
           heap w' = set_all (blayers base) False (heap w)"
proof -
  from assms obtain w1 w2 g w3 s w4 where
    s1: "forE (blayers base) (\<lambda>layer. set_trainable layer False) w = (Inr (), w1)" and
    s2: "compile env m (Named ''rmsprop'') ''categorical_crossentropy'' [''categorical_accuracy''] w1
           = (Inr (), w2)" and
    s3: "make_generator env ''./train/'' w2 = (Inr g, w3)" and
    s4: "step_size g w3 = (Inr s, w4)" and
    s5: "fit_generator env g s 50 [meeshkan_callback env, ModelCheckpoint weights_path] w4 = (Inr (), w')"
    unfolding phase_one_def make_train_generator_def by (elim bindE_InrE) auto
  from s1 have w1: "w1 = w\<lparr>heap := set_all (blayers base) False (heap w)\<rparr>"
    by (simp add: forE_set_trainable)
  note c = compile_success [OF s2]
  from make_generator_success [OF s3] obtain cnt where
    g: "g = \<lparr>directory = ''./train/'', n = cnt, batch_size = 32\<rparr>"
       "trace w3 = trace w2 @ [(flow_call ''./train/'', Count cnt)]" "heap w3 = heap w2"
    by blast
  from step_size_success [OF s4] g(1) have s: "s = cnt div 32" "w4 = w3" by simp_all
  from fit_generator_success [OF s5] obtain inner where
    f: "trace w' = trace w4 @ (FitGenerator (directory g) s 50, Done) # inner"
       "\<forall>x \<in> set inner. in_training (fst x)"
       "files_written inner = map (\<lambda>e. weights_path (Suc e)) [0..<50]" "heap w' = heap w4"
    by blast
  have "trace w' = trace w @
             [(compile_call (Named ''rmsprop'')
                 (map (\<lambda>a. trainable (set_all (blayers base) False (heap w) ! a)) (mlayers m)), Done),
              (flow_call ''./train/'', Count cnt),
              (FitGenerator ''./train/'' (cnt div 32) 50, Done)] @ inner"
    using f(1) s g c w1 by (simp add: compile_call_def)
  moreover have "heap w' = set_all (blayers base) False (heap w)"
    using f(4) s g c w1 by simp
  ultimately show ?thesis using f(2,3) by blast
qed

lemma print_layers_success:
  assumes "forE xs print_layer w = (Inr (), w')"
  shows "\<exists>prints. trace w' = trace w @ prints \<and> (\<forall>x \<in> set prints. is_print (fst x)) \<and>
           heap w' = heap w"
proof -
  have pr: "spec (print ys) (emits is_print)" for ys
    by (rule spec_print) (simp add: admits_emits)
  have pl: "spec (print_layer x) (emits is_print)" for x
    using pr unfolding spec_def print_layer_def by (auto split: prod.splits)
  have "spec (forE xs print_layer) (emits is_print)"
    by (rule spec_forE [OF sequential_emits]) (rule pl)
  from spec_InrD [OF this assms] obtain prints where
    p: "trace w' = trace w @ prints" "emits is_print (length (trace w)) None prints" by blast
  have kp: "keeps_heap (print_layer x)" for x
    using keeps_heap_print unfolding keeps_heap_def print_layer_def by (auto split: prod.splits)
  have "keeps_heap (forE xs print_layer)" by (rule keeps_heap_forE) (rule kp)
  from keeps_heapD [OF this assms] p show ?thesis by (auto simp: emits_def)
qed

lemma prepare_fine_tuning_success:
  assumes "prepare_fine_tuning env base m w = (Inr ((tg, st), (eg, se)), w')"
  defines "h2 \<equiv> set_all (drop 249 (mlayers m)) True (set_all (take 249 (mlayers m)) False (heap w))"
  shows "\<exists>prints c2 c3.
           trace w' = trace w @ prints @
             [(compile_call (SGD (1 / 10000) (9 / 10)) (map (\<lambda>a. trainable (h2 ! a)) (mlayers m)), Done),
              (flow_call ''./train/'', Count c2), (flow_call ''./test/'', Count c3)] \<and>
           (\<forall>x \<in> set prints. is_print (fst x)) \<and>
           directory tg = ''./train/'' \<and> st = c2 div 32 \<and>
           directory eg = ''./test/'' \<and> se = c3 div 32 \<and> heap w' = h2"
proof -
  from assms(1) obtain w1 w2 w3 w4 g1 w5 s1 w6 g2 w7 s2 w8 where
    p1: "forE (enumerate 0 (blayers base)) print_layer w = (Inr (), w1)" and
    p2: "forE (take 249 (mlayers m)) (\<lambda>layer. set_trainable layer False) w1 = (Inr (), w2)" and
    p3: "forE (drop 249 (mlayers m)) (\<lambda>layer. set_trainable layer True) w2 = (Inr (), w3)" and
    p4: "compile env m (SGD (1 / 10000) (9 / 10)) ''categorical_crossentropy''
           [''categorical_accuracy''] w3 = (Inr (), w4)" and
    p5: "make_generator env ''./train/'' w4 = (Inr g1, w5)" and
    p6: "step_size g1 w5 = (Inr s1, w6)" and
    p7: "make_generator env ''./test/'' w6 = (Inr g2, w7)" and
    p8: "step_size g2 w7 = (Inr s2, w8)" and
    p9: "returnE ((g1, s1), (g2, s2)) w8 = (Inr ((tg, st), (eg, se)), w')"
    unfolding prepare_fine_tuning_def make_train_generator_def make_test_generator_def
    by (elim bindE_InrE) auto
  from print_layers_success [OF p1] obtain prints where
    pr: "trace w1 = trace w @ prints" "\<forall>x \<in> set prints. is_print (fst x)" "heap w1 = heap w"
    by blast
  from p2 have w2: "w2 = w1\<lparr>heap := set_all (take 249 (mlayers m)) False (heap w1)\<rparr>"
    by (simp add: forE_set_trainable)
  from p3 have w3: "w3 = w2\<lparr>heap := set_all (drop 249 (mlayers m)) True (heap w2)\<rparr>"
    by (simp add: forE_set_trainable)
  have h3: "heap w3 = h2" "trace w3 = trace w @ prints" using w2 w3 pr by (simp_all add: h2_def)
  note c = compile_success [OF p4]
  from make_generator_success [OF p5] obtain c2 where
    g1: "g1 = \<lparr>directory = ''./train/'', n = c2, batch_size = 32\<rparr>"
       "trace w5 = trace w4 @ [(flow_call ''./train/'', Count c2)]" "heap w5 = heap w4"
    by blast
  from step_size_success [OF p6] g1(1) have s1: "s1 = c2 div 32" "w6 = w5" by simp_all
  from make_generator_success [OF p7] obtain c3 where
    g2: "g2 = \<lparr>directory = ''./test/'', n = c3, batch_size = 32\<rparr>"
       "trace w7 = trace w6 @ [(flow_call ''./test/'', Count c3)]" "heap w7 = heap w6"
    by blast
  from step_size_success [OF p8] g2(1) have s2: "s2 = c3 div 32" "w8 = w7" by simp_all
  from p9 have eq: "tg = g1" "st = s1" "eg = g2" "se = s2" "w' = w8" by (simp_all add: returnE_def)
  have "trace w' = trace w @ prints @
             [(compile_call (SGD (1 / 10000) (9 / 10)) (map (\<lambda>a. trainable (h2 ! a)) (mlayers m)), Done),
              (flow_call ''./train/'', Count c2), (flow_call ''./test/'', Count c3)]"
    using eq s2 g2 s1 g1 c h3 by (simp add: compile_call_def)
  moreover have "heap w' = h2" using eq s2 g2 s1 g1 c h3 by simp
  moreover have "directory tg = ''./train/'' \<and> st = c2 div 32 \<and>
           directory eg = ''./test/'' \<and> se = c3 div 32"
    using eq s1 s2 g1(1) g2(1) by simp
  ultimately show ?thesis using pr(2) by blast
qed

lemma finish_success:
  assumes "finish env eg se w = (Inr (), w')"
  shows "\<exists>t l a. trace w' = trace w @
           [(Time, Clock t), (ModelSave (final_path t), Done),
            (EvaluateGenerator (directory eg) se, LossAcc l a),
            (Print [PStr ''test loss and accuracy'', PFloats [l, a]], Done)]"
proof -
  from assms obtain t w1 w2 l a w3 where
    1: "time_millis env w = (Inr t, w1)" and
    2: "model_save env (final_path t) w1 = (Inr (), w2)" and
    3: "evaluate_generator env eg se w2 = (Inr (l, a), w3)" and
    4: "print [PStr ''test loss and accuracy'', PFloats [l, a]] w3 = (Inr (), w')"
    unfolding finish_def by (auto elim!: bindE_InrE)
  from 1 have "trace w1 = trace w @ [(Time, Clock t)]"
    unfolding time_millis_def by (auto dest!: ext_call_InrD simp: record_call_def)
  moreover from 2 have "trace w2 = trace w1 @ [(ModelSave (final_path t), Done)]"
    unfolding model_save_def by (auto dest!: ext_InrD simp: record_call_def)
  moreover from 3 have "trace w3 = trace w2 @ [(EvaluateGenerator (directory eg) se, LossAcc l a)]"
    unfolding evaluate_generator_def by (auto dest!: ext_call_InrD simp: record_call_def)
  moreover from 4 have "trace w' = trace w3 @
      [(Print [PStr ''test loss and accuracy'', PFloats [l, a]], Done)]"
    by (auto simp: print_def record_call_def)
  ultimately have "trace w' = trace w @
           [(Time, Clock t), (ModelSave (final_path t), Done),
            (EvaluateGenerator (directory eg) se, LossAcc l a),
            (Print [PStr ''test loss and accuracy'', PFloats [l, a]], Done)]"
    by simp
  then show ?thesis by blast
qed

lemma phases_simps [simp]:
  "phases [] = []"
  "phases (x # xs) = (if is_compile (fst x) \<or> is_fit (fst x) then fst x # phases xs else phases xs)"
  "phases (xs @ ys) = phases xs @ phases ys"
  by (simp_all add: phases_def)

lemma dirs_read_simps [simp]:
  "dirs_read [] = []"
  "dirs_read (x # xs) = scanned (fst x) @ dirs_read xs"
  "dirs_read (xs @ ys) = dirs_read xs @ dirs_read ys"
  by (simp_all add: dirs_read_def)

lemma in_training_cases:
  "in_training c \<Longrightarrow> \<not> is_compile c \<and> \<not> is_fit c \<and> scanned c = []"
  by (cases c) auto

lemma is_construction_cases:
  "is_construction c \<Longrightarrow> \<not> is_compile c \<and> \<not> is_fit c \<and> scanned c = [] \<and> written c = []"
  by (cases c) auto

lemma is_print_cases:
  "is_print c \<Longrightarrow> \<not> is_compile c \<and> \<not> is_fit c \<and> scanned c = [] \<and> written c = []"
  by (cases c) auto

lemma phases_none: "\<forall>x \<in> set tr. \<not> is_compile (fst x) \<and> \<not> is_fit (fst x) \<Longrightarrow> phases tr = []"
  by (induction tr) auto

lemma dirs_read_none: "\<forall>x \<in> set tr. scanned (fst x) = [] \<Longrightarrow> dirs_read tr = []"
  by (induction tr) auto

lemma rounds_phases:
  "list_all2 (\<lambda>i. round_events d st d' se) idx news \<Longrightarrow>
     phases (concat news) = replicate (length idx) (FitGenerator d st 1) \<and>
     dirs_read (concat news) = []"
proof (induction rule: list_all2_induct)
  case Nil
  show ?case by simp
next
  case (Cons i idx new news)
  from Cons.hyps(1) obtain inner l a where new:
    "new = (FitGenerator d st 1, Done) # inner @
              [(EvaluateGenerator d' se, LossAcc l a),
               (ReportScalar [(''Test loss'', l), (''Test accuracy'', a)], Done)]"
    "\<forall>x \<in> set inner. in_training (fst x)"
    unfolding round_events_def by blast
  from new(2) have "phases inner = []" "dirs_read inner = []"
    by (auto intro!: phases_none dirs_read_none dest: in_training_cases)
  with new(1) Cons.IH show ?case by simp
qed

lemma flags_after_refreeze:
  assumes "length h = N"
  shows "map (\<lambda>a. trainable (set_all (drop k [0..<N]) True (set_all (take k [0..<N]) False h) ! a))
           [0..<N] = map (\<lambda>i. k \<le> i) [0..<N]"
proof (rule map_cong [OF refl])
  fix a assume "a \<in> set [0..<N]"
  then have a: "a < N" by simp
  have mem: "a \<in> set (take k [0..<N]) \<or> a \<in> set (drop k [0..<N])"
    using a by (metis Un_iff append_take_drop_id atLeast0LessThan atLeastLessThan_upt lessThan_iff
        set_append)
  have dr: "a \<in> set (drop k [0..<N]) \<longleftrightarrow> k \<le> a" using a by auto
  have "trainable (set_all (drop k [0..<N]) True (set_all (take k [0..<N]) False h) ! a) =
          (if a \<in> set (drop k [0..<N]) then True
           else trainable (set_all (take k [0..<N]) False h ! a))"
    using a assms by (simp add: trainable_set_all)
  also have "\<dots> = (if a \<in> set (drop k [0..<N]) then True
           else if a \<in> set (take k [0..<N]) then False else trainable (h ! a))"
    using a assms by (simp add: trainable_set_all)
  also have "\<dots> = (k \<le> a)" using mem dr by auto
  finally show "trainable (set_all (drop k [0..<N]) True (set_all (take k [0..<N]) False h) ! a)
                  = (k \<le> a)" .
qed

lemma flags_after_freeze:
  assumes "map trainable hs = replicate j True" and nb: "nb = length names"
  shows "map (\<lambda>a. trainable (set_all [0..<nb] False (map pretrained_layer names @ hs) ! a))
           [0..<length names + j] = map (\<lambda>i. nb \<le> i) [0..<length names + j]"
proof (rule map_cong [OF refl])
  fix a assume "a \<in> set [0..<length names + j]"
  then have a: "a < length names + j" by simp
  from assms(1) have len: "length hs = j" by (metis length_map length_replicate)
  have tr: "trainable (hs ! i) = True" if "i < j" for i
    using that assms(1) len by (metis nth_map nth_replicate)
  have "trainable (set_all [0..<nb] False (map pretrained_layer names @ hs) ! a) =
          (if a < nb then False else trainable ((map pretrained_layer names @ hs) ! a))"
    using a len nb by (simp add: trainable_set_all)
  also have "\<dots> = (nb \<le> a)"
    using a tr [of "a - nb"] nb by (auto simp: nth_append)
  finally show "trainable (set_all [0..<nb] False (map pretrained_layer names @ hs) ! a) = (nb \<le> a)" .
qed

lemma upt_plus_5: "[0..<k] @ [k, k + 1, k + 2, k + 3, k + 4] = [0..<k + 5]"
  by (simp add: numeral_eq_Suc)

lemma script_success:
  assumes "script env init = (Inr (), w)"
  defines "nb \<equiv> length (inception_layers env)"
  obtains cons cnt inner1 prints c2 c3 news t l a where
    "trace w = cons @
       [(compile_call (Named ''rmsprop'') (map (\<lambda>i. nb \<le> i) [0..<nb + 5]), Done),
        (flow_call ''./train/'', Count cnt),
        (FitGenerator ''./train/'' (cnt div 32) 50, Done)] @ inner1 @ prints @
       [(compile_call (SGD (1 / 10000) (9 / 10)) (map (\<lambda>i. 249 \<le> i) [0..<nb + 5]), Done),
        (flow_call ''./train/'', Count c2), (flow_call ''./test/'', Count c3)] @
       concat news @
       [(Time, Clock t), (ModelSave (final_path t), Done),
        (EvaluateGenerator ''./test/'' (c3 div 32), LossAcc l a),
        (Print [PStr ''test loss and accuracy'', PFloats [l, a]], Done)]"
    and "\<forall>x \<in> set cons. is_construction (fst x)"
    and "\<forall>x \<in> set inner1. in_training (fst x)"
    and "files_written inner1 = map (\<lambda>e. weights_path (Suc e)) [0..<50]"
    and "\<forall>x \<in> set prints. is_print (fst x)"
    and "list_all2 (\<lambda>i. round_events ''./train/'' (c2 div 32) ''./test/'' (c3 div 32)) [0..<EPOCHS] news"
proof -
  from assms(1) obtain base m w1 w2 tg st eg se w3 w4 where
    s1: "build_model env init = (Inr (base, m), w1)" and
    s2: "phase_one env base m w1 = (Inr (), w2)" and
    s3: "prepare_fine_tuning env base m w2 = (Inr ((tg, st), (eg, se)), w3)" and
    s4: "fine_tuning env tg st eg se w3 = (Inr (), w4)" and
    s5: "finish env eg se w4 = (Inr (), w)"
    unfolding script_def by (auto elim!: bindE_InrE)
  from build_model_success [OF s1] obtain hs cons where b0:
    "heap w1 = heap init @ map pretrained_layer (inception_layers env) @ hs"
    "map trainable hs = replicate 5 True"
    "base = \<lparr>blayers = [length (heap init) ..< length (heap init) + nb],
              binput = BaseInput, boutput = BaseOutput\<rparr>"
    "mlayers m = [length (heap init) ..< length (heap init) + nb] @
       [length (heap init) + nb, length (heap init) + nb + 1, length (heap init) + nb + 2,
        length (heap init) + nb + 3, length (heap init) + nb + 4]"
    "trace w1 = trace init @ cons" "\<forall>x \<in> set cons. is_construction (fst x)"
    unfolding nb_def by force
  have hi: "heap init = []" "trace init = []" by (simp_all add: init_def)
  have b: "heap w1 = map pretrained_layer (inception_layers env) @ hs"
    "map trainable hs = replicate 5 True"
    "blayers base = [0..<nb]" "mlayers m = [0..<nb + 5]"
    "trace w1 = cons" "\<forall>x \<in> set cons. is_construction (fst x)"
    using b0 upt_plus_5 [of nb] unfolding hi by simp_all
  from b(1,2) have len1: "length (heap w1) = nb + 5"
    by (metis length_append length_map length_replicate nb_def)
  from phase_one_success [OF s2] obtain cnt inner1 where p1:
    "trace w2 = trace w1 @
             [(compile_call (Named ''rmsprop'')
                 (map (\<lambda>a. trainable (set_all (blayers base) False (heap w1) ! a)) (mlayers m)), Done),
              (flow_call ''./train/'', Count cnt),
              (FitGenerator ''./train/'' (cnt div 32) 50, Done)] @ inner1"
    "\<forall>x \<in> set inner1. in_training (fst x)"
    "files_written inner1 = map (\<lambda>e. weights_path (Suc e)) [0..<50]"
    "heap w2 = set_all (blayers base) False (heap w1)"
    by blast
  have fl1: "map (\<lambda>a. trainable (set_all (blayers base) False (heap w1) ! a)) (mlayers m)
               = map (\<lambda>i. nb \<le> i) [0..<nb + 5]"
    using flags_after_freeze [OF b(2), of nb "inception_layers env"] b(1,3,4)
    by (simp add: nb_def)
  from prepare_fine_tuning_success [OF s3] obtain prints c2 c3 where p2:
    "trace w3 = trace w2 @ prints @
       [(compile_call (SGD (1 / 10000) (9 / 10))
           (map (\<lambda>a. trainable (set_all (drop 249 (mlayers m)) True
                   (set_all (take 249 (mlayers m)) False (heap w2)) ! a)) (mlayers m)), Done),
        (flow_call ''./train/'', Count c2), (flow_call ''./test/'', Count c3)]"
    "\<forall>x \<in> set prints. is_print (fst x)"
    "directory tg = ''./train/''" "st = c2 div 32" "directory eg = ''./test/''" "se = c3 div 32"
    by blast
  have len2: "length (heap w2) = nb + 5" using p1(4) len1 by simp
  have fl2: "map (\<lambda>a. trainable (set_all (drop 249 (mlayers m)) True
                   (set_all (take 249 (mlayers m)) False (heap w2)) ! a)) (mlayers m)
               = map (\<lambda>i. 249 \<le> i) [0..<nb + 5]"
    using flags_after_refreeze [OF len2, of 249] b(4) by simp
  from fine_tuning_success [OF s4] p2(3-6) obtain news where ft:
    "trace w4 = trace w3 @ concat news"
    "list_all2 (\<lambda>i. round_events ''./train/'' (c2 div 32) ''./test/'' (c3 div 32)) [0..<EPOCHS] news"
    by auto
  from finish_success [OF s5] p2(5,6) obtain t l a where fin:
    "trace w = trace w4 @
           [(Time, Clock t), (ModelSave (final_path t), Done),
            (EvaluateGenerator ''./test/'' (c3 div 32), LossAcc l a),
            (Print [PStr ''test loss and accuracy'', PFloats [l, a]], Done)]"
    by auto
  have "trace w = cons @
       [(compile_call (Named ''rmsprop'') (map (\<lambda>i. nb \<le> i) [0..<nb + 5]), Done),
        (flow_call ''./train/'', Count cnt),
        (FitGenerator ''./train/'' (cnt div 32) 50, Done)] @ inner1 @ prints @
       [(compile_call (SGD (1 / 10000) (9 / 10)) (map (\<lambda>i. 249 \<le> i) [0..<nb + 5]), Done),
        (flow_call ''./train/'', Count c2), (flow_call ''./test/'', Count c3)] @
       concat news @
       [(Time, Clock t), (ModelSave (final_path t), Done),
        (EvaluateGenerator ''./test/'' (c3 div 32), LossAcc l a),
        (Print [PStr ''test loss and accuracy'', PFloats [l, a]], Done)]"
    unfolding fin ft(1) p2(1) p1(1) fl1 fl2 b(5) by simp
  then show thesis using b(6) p1(2,3) p2(2) ft(2) by (rule that)
qed

lemma script_emits:
  "spec (script env) (emits (\<lambda>c. may_call env c \<or> is_train_report c \<or> is_train_batch c))"
proof (rule spec_script [OF sequential_emits])
  show "spec (train_batch env [meeshkan_callback env, ModelCheckpoint weights_path] e b)
          (emits (\<lambda>c. may_call env c \<or> is_train_report c \<or> is_train_batch c))" for e b
    by (rule spec_train_batch [OF sequential_emits spec_on_batch_end_emits admits_emits])
       (simp_all add: may_call_def)
qed (simp add: admits_emits)

lemma script_events:
  assumes "x \<in> set (trace (snd (script env init)))"
  shows "may_call env (fst x) \<or> is_train_report (fst x) \<or> is_train_batch (fst x)"
proof -
  from script_emits [of env] obtain new where
    "trace (snd (script env init)) = trace init @ new"
    "emits (\<lambda>c. may_call env c \<or> is_train_report c \<or> is_train_batch c) (length (trace init))
       (err (fst (script env init))) new"
    unfolding spec_def by blast
  with assms show ?thesis by (simp add: init_def emits_def)
qed

lemma script_env_small_ok: "fst (script env_small init) = Inr ()"
  by (simp add: run_defs env_defs env_small_def)

section \<open>Properties of the whole script\<close>

text \<open>
  \<^bold>\<open>C3\<close>. Training runs in exactly two phases. Phase one is compiled with every backbone layer
  frozen and every new layer trainable, and trains for 50 epochs. Phase two is compiled with
  the layers of index below 249 frozen and the layers from index 249 on trainable, with
  SGD at learning rate 0.0001 (momentum 0.9), lower than the rate of the first optimizer,
  and trains ten times one epoch. The flags listed are those of the model's layers at each
  compilation, in the order of the model's layer list.
\<close>

theorem two_phase_training:
  assumes "script env init = (Inr (), w)"
  shows "(\<exists>s1 s2. phases (trace w) =
           [Compile (Named ''rmsprop'') ''categorical_crossentropy'' [''categorical_accuracy'']
              (map (\<lambda>i. length (inception_layers env) \<le> i) [0..<length (inception_layers env) + 5]),
            FitGenerator ''./train/'' s1 50,
            Compile (SGD (1 / 10000) (9 / 10)) ''categorical_crossentropy'' [''categorical_accuracy'']
              (map (\<lambda>i. 249 \<le> i) [0..<length (inception_layers env) + 5])] @
           replicate 10 (FitGenerator ''./train/'' s2 1)) \<and>
         (\<exists>r1 r2. learning_rate (Named ''rmsprop'') = Some r1 \<and>
            learning_rate (SGD (1 / 10000) (9 / 10)) = Some r2 \<and> r2 < r1)"
proof -
  from assms obtain cons cnt inner1 prints c2 c3 news t l a where
    tr: "trace w = cons @
       [(compile_call (Named ''rmsprop'')
           (map (\<lambda>i. length (inception_layers env) \<le> i) [0..<length (inception_layers env) + 5]), Done),
        (flow_call ''./train/'', Count cnt),
        (FitGenerator ''./train/'' (cnt div 32) 50, Done)] @ inner1 @ prints @
       [(compile_call (SGD (1 / 10000) (9 / 10))
           (map (\<lambda>i. 249 \<le> i) [0..<length (inception_layers env) + 5]), Done),
        (flow_call ''./train/'', Count c2), (flow_call ''./test/'', Count c3)] @
       concat news @
       [(Time, Clock t), (ModelSave (final_path t), Done),
        (EvaluateGenerator ''./test/'' (c3 div 32), LossAcc l a),
        (Print [PStr ''test loss and accuracy'', PFloats [l, a]], Done)]"
    and cons: "\<forall>x \<in> set cons. is_construction (fst x)"
    and inner1: "\<forall>x \<in> set inner1. in_training (fst x)"
    and prints: "\<forall>x \<in> set prints. is_print (fst x)"
    and news: "list_all2 (\<lambda>i. round_events ''./train/'' (c2 div 32) ''./test/'' (c3 div 32))
                 [0..<EPOCHS] news"
    by (rule script_success)
  have 1: "phases cons = []" using cons by (auto intro!: phases_none dest: is_construction_cases)
  have 2: "phases inner1 = []" using inner1 by (auto intro!: phases_none dest: in_training_cases)
  have 3: "phases prints = []" using prints by (auto intro!: phases_none dest: is_print_cases)
  have 4: "phases (concat news) = replicate 10 (FitGenerator ''./train/'' (c2 div 32) 1)"
    using rounds_phases [OF news] by (simp add: EPOCHS_def)
  have "phases (trace w) =
           [Compile (Named ''rmsprop'') ''categorical_crossentropy'' [''categorical_accuracy'']
              (map (\<lambda>i. length (inception_layers env) \<le> i) [0..<length (inception_layers env) + 5]),
            FitGenerator ''./train/'' (cnt div 32) 50,
            Compile (SGD (1 / 10000) (9 / 10)) ''categorical_crossentropy'' [''categorical_accuracy'']
              (map (\<lambda>i. 249 \<le> i) [0..<length (inception_layers env) + 5])] @
           replicate 10 (FitGenerator ''./train/'' (c2 div 32) 1)"
    unfolding tr by (simp add: 1 2 3 4 compile_call_def flow_call_def)
  moreover have "\<exists>r1 r2. learning_rate (Named ''rmsprop'') = Some r1 \<and>
            learning_rate (SGD (1 / 10000) (9 / 10)) = Some r2 \<and> r2 < r1"
    by (intro exI [of _ "1 / 1000"] exI [of _ "1 / 10000"]) simp
  ultimately show ?thesis by blast
qed

theorem two_phase_training_witness:
  "fst (script env_small init) = Inr () \<and>
   (\<exists>s1 s2. phases (trace (snd (script env_small init))) =
      [Compile (Named ''rmsprop'') ''categorical_crossentropy'' [''categorical_accuracy'']
         [False, False, False, True, True, True, True, True],
       FitGenerator ''./train/'' s1 50,
       Compile (SGD (1 / 10000) (9 / 10)) ''categorical_crossentropy'' [''categorical_accuracy'']
         [False, False, False, False, False, False, False, False]] @
      replicate 10 (FitGenerator ''./train/'' s2 1))"
proof -
  have h: "script env_small init = (Inr (), snd (script env_small init))"
    using script_env_small_ok by (metis prod.collapse)
  have n: "length (inception_layers env_small) = 3" by (simp add: env_small_def env_ok_def)
  have f1: "map (\<lambda>i. (3::nat) \<le> i) [0..<3 + 5] = [False, False, False, True, True, True, True, True]"
    by (simp add: upt_rec)
  have f2: "map (\<lambda>i. (249::nat) \<le> i) [0..<3 + 5] =
              [False, False, False, False, False, False, False, False]"
    by (simp add: upt_rec)
  from two_phase_training [OF h] have
    "\<exists>s1 s2. phases (trace (snd (script env_small init))) =
      [Compile (Named ''rmsprop'') ''categorical_crossentropy'' [''categorical_accuracy'']
         [False, False, False, True, True, True, True, True],
       FitGenerator ''./train/'' s1 50,
       Compile (SGD (1 / 10000) (9 / 10)) ''categorical_crossentropy'' [''categorical_accuracy'']
         [False, False, False, False, False, False, False, False]] @
      replicate 10 (FitGenerator ''./train/'' s2 1)"
    unfolding n f1 f2 by (elim conjE)
  with script_env_small_ok show ?thesis by (intro conjI)
qed

text \<open>
  \<^bold>\<open>C4\<close>. The model keeps the backbone's input and replaces its output: its layers are the
  backbone's layers followed by a global average pooling layer and dense layers of 1024, 512
  and 32 units (relu), and its output is that of the last layer, a dense layer of exactly 2
  units with softmax activation.
\<close>

theorem model_head_two_class_softmax:
  assumes "build_model env w = (Inr (base, m), w')"
  shows "inputs m = binput base \<and> outputs m \<noteq> boutput base \<and>
         take (length (blayers base)) (mlayers m) = blayers base \<and>
         (\<forall>a \<in> set (blayers base). kind (heap w' ! a) = Pretrained) \<and>
         map (\<lambda>a. kind (heap w' ! a)) (drop (length (blayers base)) (mlayers m)) =
           [GlobalAveragePooling2D, Dense 1024 ''relu'', Dense 512 ''relu'', Dense 32 ''relu'',
            Dense 2 ''softmax''] \<and>
         (\<exists>t. outputs m = Applied (last (mlayers m)) t) \<and>
         kind (heap w' ! last (mlayers m)) = Dense 2 ''softmax''"
proof -
  define h0 where "h0 = length (heap w)"
  define nb where "nb = length (inception_layers env)"
  from build_model_success [OF assms] obtain hs where
    hp: "heap w' = heap w @ map pretrained_layer (inception_layers env) @ hs" and
    kinds: "map kind hs = head_kinds" and
    b: "base = \<lparr>blayers = [h0 ..< h0 + nb], binput = BaseInput, boutput = BaseOutput\<rparr>" and
    m: "m = \<lparr>inputs = BaseInput,
                outputs = Applied (h0 + nb + 4) (Applied (h0 + nb + 3) (Applied (h0 + nb + 2)
                            (Applied (h0 + nb + 1) (Applied (h0 + nb) BaseOutput)))),
                mlayers = [h0 ..< h0 + nb] @ [h0 + nb, h0 + nb + 1, h0 + nb + 2, h0 + nb + 3,
                            h0 + nb + 4]\<rparr>"
    unfolding h0_def nb_def by blast
  have "length hs = length head_kinds" by (metis kinds length_map)
  then have len: "length hs = 5" by (simp add: head_kinds_def)
  have hd_nth: "kind (heap w' ! (h0 + nb + i)) = head_kinds ! i" if "i < 5" for i
  proof -
    have "heap w' ! (h0 + nb + i) = hs ! i"
      unfolding hp by (simp add: nth_append h0_def nb_def)
    with that len kinds show ?thesis by (metis nth_map)
  qed
  have base_nth: "kind (heap w' ! a) = Pretrained" if "a \<in> set (blayers base)" for a
  proof -
    from that b have a: "h0 \<le> a" "a < h0 + nb" by simp_all
    then have "heap w' ! a = pretrained_layer (inception_layers env ! (a - h0))"
      unfolding hp by (auto simp: nth_append h0_def nb_def)
    then show ?thesis by (simp add: pretrained_layer_def)
  qed
  have k: "kind (heap w' ! (h0 + nb)) = GlobalAveragePooling2D"
    "kind (heap w' ! (h0 + nb + 1)) = Dense 1024 ''relu''"
    "kind (heap w' ! (h0 + nb + 2)) = Dense 512 ''relu''"
    "kind (heap w' ! (h0 + nb + 3)) = Dense 32 ''relu''"
    "kind (heap w' ! (h0 + nb + 4)) = Dense 2 ''softmax''"
    using hd_nth [of 0] hd_nth [of 1] hd_nth [of 2] hd_nth [of 3] hd_nth [of 4]
    by (simp_all add: head_kinds_def)
  show ?thesis
    using base_nth k unfolding b m by simp
qed

theorem model_head_two_class_softmax_witness:
  "case build_model env_ok init of
     (Inl e, w') \<Rightarrow> False
   | (Inr (base, m), w') \<Rightarrow>
       inputs m = binput base \<and> kind (heap w' ! last (mlayers m)) = Dense 2 ''softmax''"
proof -
  have ok: "case build_model env_ok init of (Inl e, w') \<Rightarrow> False | (Inr bm, w') \<Rightarrow> True"
    by (simp add: run_defs env_defs)
  obtain r w' where rw: "build_model env_ok init = (r, w')" by (cases "build_model env_ok init")
  with ok obtain base m where r: "r = Inr (base, m)" by (cases r) auto
  from model_head_two_class_softmax [OF rw [unfolded r]] show ?thesis
    unfolding rw r by simp
qed

lemma written_in_training: "in_training c \<Longrightarrow> written c = [] \<or> (\<exists>p. c = SaveWeights p)"
  by (cases c) auto

lemma script_paths:
  assumes "script env init = (r, w)"
  shows "set (dirs_read (trace w)) \<subseteq> {''./train/'', ''./test/''} \<and>
         (\<forall>p \<in> set (files_written (trace w)).
            (\<exists>e. 1 \<le> e \<and> e \<le> 50 \<and> p = weights_path e) \<or> (\<exists>k. p = final_path (millis env k))) \<and>
         (r = Inr () \<longrightarrow>
            dirs_read (trace w) = [''./train/'', ''./train/'', ''./test/''] \<and>
            (\<exists>t. (Time, Clock t) \<in> set (trace w) \<and>
               files_written (trace w) =
                 map weights_path [1..<51] @ replicate 10 (weights_path 1) @ [final_path t]))"
proof (intro conjI impI)
  have ev: "may_call env (fst x) \<or> is_train_report (fst x) \<or> is_train_batch (fst x)"
    if "x \<in> set (trace w)" for x
    using script_events [of x env] that assms by simp
  show "set (dirs_read (trace w)) \<subseteq> {''./train/'', ''./test/''}"
  proof
    fix d assume "d \<in> set (dirs_read (trace w))"
    then obtain x where x: "x \<in> set (trace w)" "d \<in> set (scanned (fst x))"
      by (auto simp: dirs_read_def)
    from ev [OF x(1)] x(2) show "d \<in> {''./train/'', ''./test/''}"
      by (cases "fst x") (auto simp: may_call_def)
  qed
  show "\<forall>p \<in> set (files_written (trace w)).
          (\<exists>e. 1 \<le> e \<and> e \<le> 50 \<and> p = weights_path e) \<or> (\<exists>k. p = final_path (millis env k))"
  proof
    fix p assume "p \<in> set (files_written (trace w))"
    then obtain x where x: "x \<in> set (trace w)" "p \<in> set (written (fst x))"
      by (auto simp: files_written_def)
    from ev [OF x(1)] x(2)
    show "(\<exists>e. 1 \<le> e \<and> e \<le> 50 \<and> p = weights_path e) \<or> (\<exists>k. p = final_path (millis env k))"
      by (cases "fst x") (auto simp: may_call_def)
  qed
next
  assume "r = Inr ()"
  with assms have run: "script env init = (Inr (), w)" by simp
  from run obtain cons cnt inner1 prints c2 c3 news t l a where
    tr: "trace w = cons @
       [(compile_call (Named ''rmsprop'')
           (map (\<lambda>i. length (inception_layers env) \<le> i) [0..<length (inception_layers env) + 5]), Done),
        (flow_call ''./train/'', Count cnt),
        (FitGenerator ''./train/'' (cnt div 32) 50, Done)] @ inner1 @ prints @
       [(compile_call (SGD (1 / 10000) (9 / 10))
           (map (\<lambda>i. 249 \<le> i) [0..<length (inception_layers env) + 5]), Done),
        (flow_call ''./train/'', Count c2), (flow_call ''./test/'', Count c3)] @
       concat news @
       [(Time, Clock t), (ModelSave (final_path t), Done),
        (EvaluateGenerator ''./test/'' (c3 div 32), LossAcc l a),
        (Print [PStr ''test loss and accuracy'', PFloats [l, a]], Done)]"
    and cons: "\<forall>x \<in> set cons. is_construction (fst x)"
    and inner1: "\<forall>x \<in> set inner1. in_training (fst x)"
    and files1: "files_written inner1 = map (\<lambda>e. weights_path (Suc e)) [0..<50]"
    and prints: "\<forall>x \<in> set prints. is_print (fst x)"
    and news: "list_all2 (\<lambda>i. round_events ''./train/'' (c2 div 32) ''./test/'' (c3 div 32))
                 [0..<EPOCHS] news"
    by (rule script_success)
  have d1: "dirs_read cons = []" "files_written cons = []"
    using cons by (auto intro!: dirs_read_none files_written_none dest: is_construction_cases)
  have d2: "dirs_read inner1 = []"
    using inner1 by (auto intro!: dirs_read_none dest: in_training_cases)
  have d3: "dirs_read prints = []" "files_written prints = []"
    using prints by (auto intro!: dirs_read_none files_written_none dest: is_print_cases)
  have d4: "dirs_read (concat news) = []" using rounds_phases [OF news] by simp
  have f4: "files_written (concat news) = replicate 10 (weights_path 1)"
    using rounds_files [OF news] by (simp add: EPOCHS_def)
  have f1: "map (\<lambda>e. weights_path (Suc e)) [0..<50] = map weights_path [1..<51]"
  proof -
    have "map weights_path (map Suc [0..<50]) = map weights_path [Suc 0..<Suc 50]"
      by (simp only: map_Suc_upt)
    then show ?thesis by (simp add: comp_def)
  qed
  show "dirs_read (trace w) = [''./train/'', ''./train/'', ''./test/'']"
    unfolding tr by (simp add: d1 d2 d3 d4 compile_call_def flow_call_def)
  have "files_written (trace w) =
          map weights_path [1..<51] @ replicate 10 (weights_path 1) @ [final_path t]"
    unfolding tr by (simp add: d1 d3 f4 files1 f1 compile_call_def flow_call_def)
  moreover have "(Time, Clock t) \<in> set (trace w)" unfolding tr by simp
  ultimately show "\<exists>t. (Time, Clock t) \<in> set (trace w) \<and>
               files_written (trace w) =
                 map weights_path [1..<51] @ replicate 10 (weights_path 1) @ [final_path t]"
    by blast
qed

text \<open>
  \<^bold>\<open>C9\<close>. The step count of every training run and of every evaluation is the floor division
  by 32 of the number of images a scan of its directory found; when a directory holds fewer
  than 32 images, that count is 0, and the call is asked to run zero steps.
\<close>

theorem step_counts_floor_division:
  assumes "(c, out) \<in> set (trace (snd (script env init)))"
    and "c = FitGenerator d s e \<or> c = EvaluateGenerator d s"
  shows "(\<exists>k. s = image_count env k d div 32) \<and> ((\<forall>k. image_count env k d < 32) \<longrightarrow> s = 0)"
proof -
  from script_events [OF assms(1)] assms(2) have "\<exists>k. s = image_count env k d div 32"
    by (auto simp: may_call_def)
  then show ?thesis by auto
qed

theorem step_counts_floor_division_witness:
  "(FitGenerator ''./train/'' 0 50, Done) \<in> set (trace (snd (script env_small init))) \<and>
   (\<forall>k. image_count env_small k ''./train/'' < 32) \<and>
   (\<exists>k. (0::nat) = image_count env_small k ''./train/'' div 32)"
proof -
  have m: "(FitGenerator ''./train/'' 0 50, Done) \<in> set (trace (snd (script env_small init)))"
    by (simp add: run_defs env_defs env_small_def)
  have s: "\<forall>k. image_count env_small k ''./train/'' < 32"
    by (simp add: env_small_def)
  from step_counts_floor_division [OF m, of "''./train/''" 0 50] m s show ?thesis by simp
qed

section \<open>Properties of the fine-tuning loop\<close>



text \<open>
  \<^bold>\<open>C8\<close>. Every training run of the fine-tuning loop is started with \<open>epochs = 1\<close>, so every
  checkpoint the loop writes goes to the one path \<^verbatim>\<open>weights.01.hdf5\<close>: at most one
  fine-tuning checkpoint file exists, and a loop that completes has written that path ten
  times, each write replacing the one before.
\<close>

theorem fine_tuning_checkpoints_overwrite:
  assumes "fine_tuning env train_generator step_size_train test_generator step_size_test w = (r, w')"
  shows "set (files_written (drop (length (trace w)) (trace w'))) \<subseteq> {''weights.01.hdf5''} \<and>
         (\<forall>d s e out. (FitGenerator d s e, out) \<in> set (drop (length (trace w)) (trace w')) \<longrightarrow> e = 1) \<and>
         (r = Inr () \<longrightarrow>
            files_written (drop (length (trace w)) (trace w')) = replicate 10 ''weights.01.hdf5'')"
proof -
  let ?A = "\<lambda>c. set (written c) \<subseteq> {''weights.01.hdf5''} \<and> (\<forall>d s e. c = FitGenerator d s e \<longrightarrow> e = 1)"
  have "spec (fine_tuning env train_generator step_size_train test_generator step_size_test) (emits ?A)"
  proof (rule spec_fine_tuning [OF sequential_emits])
    show "spec (train_batch env [meeshkan_callback env, ModelCheckpoint weights_path] e b) (emits ?A)"
      for e b
      by (rule spec_train_batch [OF sequential_emits spec_on_batch_end_emits admits_emits]) simp_all
    show "admits (emits ?A) (SaveWeights (weights_path (Suc 0)))"
      using weights_path_1 by (intro admits_emits) simp
  qed (simp_all add: admits_emits)
  then obtain new where new: "trace w' = trace w @ new" "emits ?A (length (trace w)) (err r) new"
  proof -
    assume s: "spec (fine_tuning env train_generator step_size_train test_generator step_size_test) (emits ?A)"
      and t: "\<And>new. trace w' = trace w @ new \<Longrightarrow> emits ?A (length (trace w)) (err r) new \<Longrightarrow> thesis"
    from s obtain new where
      "trace (snd (fine_tuning env train_generator step_size_train test_generator step_size_test w))
         = trace w @ new"
      "emits ?A (length (trace w))
         (err (fst (fine_tuning env train_generator step_size_train test_generator step_size_test w))) new"
      unfolding spec_def by blast
    with assms t show thesis by simp
  qed
  from new(2) have a: "set (files_written new) \<subseteq> {''weights.01.hdf5''}"
    by (auto simp: emits_def files_written_def)
  from new(2) have b: "\<forall>d s e out. (FitGenerator d s e, out) \<in> set new \<longrightarrow> e = 1"
    by (fastforce simp: emits_def)
  have c: "files_written new = replicate 10 ''weights.01.hdf5''" if "r = Inr ()"
  proof -
    from fine_tuning_success [OF assms [unfolded that]] obtain news where
      news: "trace w' = trace w @ concat news"
        "list_all2 (\<lambda>i. round_events (directory train_generator) step_size_train
          (directory test_generator) step_size_test) [0..<EPOCHS] news"
      by blast
    from news(1) new(1) have "new = concat news" by simp
    with rounds_files [OF news(2)] show ?thesis by (simp add: EPOCHS_def weights_path_1)
  qed
  from a b c new(1) show ?thesis by simp
qed

theorem fine_tuning_checkpoints_overwrite_witness:
  "fst (fine_tuning env_ok train_gen 1 test_gen 1 init) = Inr () \<and>
   files_written (drop (length (trace init))
      (trace (snd (fine_tuning env_ok train_gen 1 test_gen 1 init)))) =
     replicate 10 ''weights.01.hdf5''"
proof -
  have ok: "fst (fine_tuning env_ok train_gen 1 test_gen 1 init) = Inr ()"
    by (simp add: run_defs env_defs train_gen_def test_gen_def)
  have h: "fine_tuning env_ok train_gen 1 test_gen 1 init =
      (fst (fine_tuning env_ok train_gen 1 test_gen 1 init),
       snd (fine_tuning env_ok train_gen 1 test_gen 1 init))"
    by simp
  from fine_tuning_checkpoints_overwrite [OF h] ok show ?thesis by blast
qed

section \<open>The reports at the end of every training minibatch\<close>

lemma sequential_reports_follow: "sequential (reports_follow env)"
  unfolding sequential_def
proof (intro conjI allI impI)
  fix k show "reports_follow env k None []" by (simp add: reports_follow_def)
next
  fix k n1 n2 r
  assume 1: "reports_follow env k None n1" and 2: "reports_follow env (k + length n1) r n2"
  have hd2: "\<not> is_train_report (fst (n2 ! 0))" if "n2 \<noteq> []"
    using 2 that by (simp add: reports_follow_def hd_conv_nth)
  show "reports_follow env k r (n1 @ n2)"
    unfolding reports_follow_def
  proof (rule conjI, goal_cases)
    case 1
    show "n1 @ n2 = [] \<or> \<not> is_train_report (fst (hd (n1 @ n2)))"
      using \<open>reports_follow env k None n1\<close> 2 by (cases n1) (auto simp: reports_follow_def)
  next
    case goal2: 2
    show ?case
    proof (intro allI impI)
    fix i e b x y
    assume h: "i < length (n1 @ n2) \<and> (n1 @ n2) ! i = (TrainBatch e b, Done) \<and>
         batch_logs env (k + i) ''loss'' = Some (PyNum x) \<and>
         batch_logs env (k + i) ''categorical_accuracy'' = Some (PyNum y) \<and>
         raises env (k + i + 1) (ReportScalar [(''Train loss'', x)]) = None \<and>
         raises env (k + i + 2) (ReportScalar [(''Train accuracy'', y)]) = None"
    show "i + 2 < length (n1 @ n2) \<and>
         (n1 @ n2) ! (i + 1) = (ReportScalar [(''Train loss'', x)], Done) \<and>
         (n1 @ n2) ! (i + 2) = (ReportScalar [(''Train accuracy'', y)], Done) \<and>
         (i + 3 < length (n1 @ n2) \<longrightarrow> \<not> is_train_report (fst ((n1 @ n2) ! (i + 3))))"
    proof (cases "i < length n1")
      case True
      with h have "i < length n1 \<and> n1 ! i = (TrainBatch e b, Done) \<and>
         batch_logs env (k + i) ''loss'' = Some (PyNum x) \<and>
         batch_logs env (k + i) ''categorical_accuracy'' = Some (PyNum y) \<and>
         raises env (k + i + 1) (ReportScalar [(''Train loss'', x)]) = None \<and>
         raises env (k + i + 2) (ReportScalar [(''Train accuracy'', y)]) = None"
        by (simp add: nth_append)
      with 1 have c: "i + 2 < length n1"
        "n1 ! (i + 1) = (ReportScalar [(''Train loss'', x)], Done)"
        "n1 ! (i + 2) = (ReportScalar [(''Train accuracy'', y)], Done)"
        "i + 3 < length n1 \<longrightarrow> \<not> is_train_report (fst (n1 ! (i + 3)))"
        unfolding reports_follow_def by blast+
      have "\<not> is_train_report (fst ((n1 @ n2) ! (i + 3)))" if "i + 3 < length (n1 @ n2)"
      proof (cases "i + 3 < length n1")
        case True
        with c(4) show ?thesis by (simp add: nth_append)
      next
        case False
        with c(1) have eq: "i + 3 = length n1" by simp
        with that have "n2 \<noteq> []" by auto
        from hd2 [OF this] eq show ?thesis by (simp add: nth_append)
      qed
      with c show ?thesis by (simp add: nth_append)
    next
      case False
      define j where "j = i - length n1"
      with False have i: "i = length n1 + j" by simp
      with h have "j < length n2 \<and> n2 ! j = (TrainBatch e b, Done) \<and>
         batch_logs env (k + length n1 + j) ''loss'' = Some (PyNum x) \<and>
         batch_logs env (k + length n1 + j) ''categorical_accuracy'' = Some (PyNum y) \<and>
         raises env (k + length n1 + j + 1) (ReportScalar [(''Train loss'', x)]) = None \<and>
         raises env (k + length n1 + j + 2) (ReportScalar [(''Train accuracy'', y)]) = None"
        by (simp add: nth_append add.assoc)
      with 2 have c: "j + 2 < length n2"
        "n2 ! (j + 1) = (ReportScalar [(''Train loss'', x)], Done)"
        "n2 ! (j + 2) = (ReportScalar [(''Train accuracy'', y)], Done)"
        "j + 3 < length n2 \<longrightarrow> \<not> is_train_report (fst (n2 ! (j + 3)))"
        unfolding reports_follow_def by blast+
      then show ?thesis unfolding i by (simp add: nth_append add.assoc)
    qed
    qed
  qed
qed

lemma admits_reports_follow:
  assumes "\<not> is_train_report c" and "\<not> is_train_batch c"
  shows "admits (reports_follow env) c"
  using assms unfolding admits_def reports_follow_def by (cases c) auto

lemma train_batch_run:
  "train_batch env [meeshkan_callback env, ModelCheckpoint weights_path] e b w =
     (case raises env (length (trace w)) (TrainBatch e b) of
        Some ex \<Rightarrow> (Inl ex, record_call (TrainBatch e b) (Raised ex) w)
      | None \<Rightarrow>
          on_batch_end env b (batch_logs env (length (trace w)))
            (record_call (TrainBatch e b) Done w))"
proof (cases "raises env (length (trace w)) (TrainBatch e b)")
  case (Some ex)
  then show ?thesis
    by (simp add: train_batch_def ext_call_def bindE_def)
next
  case None
  obtain r w' where r: "on_batch_end env b (batch_logs env (length (trace w)))
            (record_call (TrainBatch e b) Done w) = (r, w')"
    by (cases "on_batch_end env b (batch_logs env (length (trace w)))
            (record_call (TrainBatch e b) Done w)")
  with None show ?thesis
    by (cases r) (simp_all add: train_batch_def ext_call_def bindE_def meeshkan_callback_def returnE_def)
qed

lemma spec_train_batch_reports_follow:
  "spec (train_batch env [meeshkan_callback env, ModelCheckpoint weights_path] e b)
     (reports_follow env)"
  unfolding spec_def
proof
  fix w :: world
  let ?tb = "train_batch env [meeshkan_callback env, ModelCheckpoint weights_path] e b"
  let ?k = "length (trace w)"
  show "\<exists>new. trace (snd (?tb w)) = trace w @ new \<and> reports_follow env ?k (err (fst (?tb w))) new"
  proof (cases "raises env ?k (TrainBatch e b)")
    case (Some ex)
    then have "trace (snd (?tb w)) = trace w @ [(TrainBatch e b, Raised ex)]"
      by (simp add: train_batch_run record_call_def)
    moreover have "reports_follow env ?k r [(TrainBatch e b, Raised ex)]" for r
      by (auto simp: reports_follow_def)
    ultimately show ?thesis by blast
  next
    case None
    let ?w1 = "record_call (TrainBatch e b) Done w"
    let ?lg = "batch_logs env ?k"
    have run: "?tb w = on_batch_end env b ?lg ?w1"
      using None by (simp add: train_batch_run)
    have len1: "length (trace ?w1) = Suc ?k" "trace ?w1 = trace w @ [(TrainBatch e b, Done)]"
      by (simp_all add: record_call_def)
    let ?A = "\<lambda>c. is_train_report c \<or> is_print c"
    have "spec (on_batch_end env b ?lg) (emits ?A)"
      by (rule spec_on_batch_end_emits) simp_all
    then obtain rest where rest:
      "trace (snd (on_batch_end env b ?lg ?w1)) = trace ?w1 @ rest" "\<forall>x \<in> set rest. ?A (fst x)"
      unfolding spec_def emits_def by blast
    have no_tb: "rest ! j \<noteq> (TrainBatch e' b', out)" if "j < length rest" for j e' b' out
    proof
      assume "rest ! j = (TrainBatch e' b', out)"
      with that have "(TrainBatch e' b', out) \<in> set rest" by (metis nth_mem)
      with rest(2) show False by auto
    qed
    have two: "rest = [(ReportScalar [(''Train loss'', x)], Done),
                       (ReportScalar [(''Train accuracy'', y)], Done)]"
      if "?lg ''loss'' = Some (PyNum x)" "?lg ''categorical_accuracy'' = Some (PyNum y)"
        "raises env (Suc ?k) (ReportScalar [(''Train loss'', x)]) = None"
        "raises env (Suc (Suc ?k)) (ReportScalar [(''Train accuracy'', y)]) = None" for x y
    proof -
      have "on_batch_end env b ?lg ?w1 =
           (Inr (), ?w1\<lparr>trace := trace ?w1 @
              [(ReportScalar [(''Train loss'', x)], Done),
               (ReportScalar [(''Train accuracy'', y)], Done)]\<rparr>)"
        by (rule on_batch_end_two_reports) (use that len1 in simp_all)
      with rest(1) show ?thesis by simp
    qed
    have "reports_follow env ?k r ((TrainBatch e b, Done) # rest)" for r
      unfolding reports_follow_def
    proof (rule conjI, goal_cases)
      case 1
      show ?case by simp
    next
      case 2
      show ?case
      proof (intro allI impI)
        fix i e' b' x y
        assume h: "i < length ((TrainBatch e b, Done) # rest) \<and>
          ((TrainBatch e b, Done) # rest) ! i = (TrainBatch e' b', Done) \<and>
          batch_logs env (?k + i) ''loss'' = Some (PyNum x) \<and>
          batch_logs env (?k + i) ''categorical_accuracy'' = Some (PyNum y) \<and>
          raises env (?k + i + 1) (ReportScalar [(''Train loss'', x)]) = None \<and>
          raises env (?k + i + 2) (ReportScalar [(''Train accuracy'', y)]) = None"
        have i0: "i = 0"
        proof (rule ccontr)
          assume "i \<noteq> 0"
          then obtain j where j: "i = Suc j" by (cases i) auto
          with h have "j < length rest" "rest ! j = (TrainBatch e' b', Done)" by simp_all
          with no_tb show False by blast
        qed
        with h have "rest = [(ReportScalar [(''Train loss'', x)], Done),
                       (ReportScalar [(''Train accuracy'', y)], Done)]"
          by (intro two) simp_all
        with i0 show "i + 2 < length ((TrainBatch e b, Done) # rest) \<and>
          ((TrainBatch e b, Done) # rest) ! (i + 1) = (ReportScalar [(''Train loss'', x)], Done) \<and>
          ((TrainBatch e b, Done) # rest) ! (i + 2) = (ReportScalar [(''Train accuracy'', y)], Done) \<and>
          (i + 3 < length ((TrainBatch e b, Done) # rest) \<longrightarrow>
             \<not> is_train_report (fst (((TrainBatch e b, Done) # rest) ! (i + 3))))"
          by simp
      qed
    qed
    moreover have "trace (snd (?tb w)) = trace w @ ((TrainBatch e b, Done) # rest)"
      using run rest(1) len1(2) by simp
    ultimately show ?thesis by blast
  qed
qed

lemma script_reports_follow: "spec (script env) (reports_follow env)"
proof (rule spec_script [OF sequential_reports_follow spec_train_batch_reports_follow])
  fix c assume "may_call env c"
  then have "\<not> is_train_report c \<and> \<not> is_train_batch c"
    by (cases c) (auto simp: may_call_def)
  then show "admits (reports_follow env) c" by (simp add: admits_reports_follow)
qed

text \<open>
  \<^bold>\<open>C5\<close>. As amended: in every run of the script, at the end of every training minibatch whose
  logs hold numbers under \<^verbatim>\<open>loss\<close> and \<^verbatim>\<open>categorical_accuracy\<close>, and when the agent raises on
  neither call, exactly two scalar metrics are forwarded: right after the training step the
  loss as \<^verbatim>\<open>Train loss\<close>, then the accuracy as \<^verbatim>\<open>Train accuracy\<close>, and the event after them is not
  another report of the callback. The minibatch is the event at position \<open>i\<close> of the trace;
  its logs and the agent's answers are those of the environment at the positions concerned.
\<close>

theorem training_minibatch_forwards_two_metrics:
  assumes "i < length (trace (snd (script env init)))"
    and "trace (snd (script env init)) ! i = (TrainBatch epoch batch, Done)"
    and "batch_logs env i ''loss'' = Some (PyNum x)"
    and "batch_logs env i ''categorical_accuracy'' = Some (PyNum y)"
    and "raises env (i + 1) (ReportScalar [(''Train loss'', x)]) = None"
    and "raises env (i + 2) (ReportScalar [(''Train accuracy'', y)]) = None"
  shows "i + 2 < length (trace (snd (script env init))) \<and>
         trace (snd (script env init)) ! (i + 1) = (ReportScalar [(''Train loss'', x)], Done) \<and>
         trace (snd (script env init)) ! (i + 2) = (ReportScalar [(''Train accuracy'', y)], Done) \<and>
         (i + 3 < length (trace (snd (script env init))) \<longrightarrow>
            \<not> is_train_report (fst (trace (snd (script env init)) ! (i + 3))))"
proof -
  from script_reports_follow [of env] obtain new where
    "trace (snd (script env init)) = trace init @ new"
    "reports_follow env (length (trace init)) (err (fst (script env init))) new"
    unfolding spec_def by blast
  then have rf: "reports_follow env 0 (err (fst (script env init))) (trace (snd (script env init)))"
    by (simp add: init_def)
  from assms have "i < length (trace (snd (script env init))) \<and>
      trace (snd (script env init)) ! i = (TrainBatch epoch batch, Done) \<and>
      batch_logs env (0 + i) ''loss'' = Some (PyNum x) \<and>
      batch_logs env (0 + i) ''categorical_accuracy'' = Some (PyNum y) \<and>
      raises env (0 + i + 1) (ReportScalar [(''Train loss'', x)]) = None \<and>
      raises env (0 + i + 2) (ReportScalar [(''Train accuracy'', y)]) = None"
    by simp
  with rf show ?thesis unfolding reports_follow_def by blast
qed

theorem training_minibatch_forwards_two_metrics_witness:
  "length (trace (snd (script env_disk_full init))) = 14 \<and>
   trace (snd (script env_disk_full init)) ! 10 = (TrainBatch 0 0, Done) \<and>
   trace (snd (script env_disk_full init)) ! 11 = (ReportScalar [(''Train loss'', 1 / 2)], Done) \<and>
   trace (snd (script env_disk_full init)) ! 12 =
     (ReportScalar [(''Train accuracy'', 3 / 4)], Done) \<and>
   \<not> is_train_report (fst (trace (snd (script env_disk_full init)) ! 13))"
proof -
  have ev: "case script env_disk_full init of
      (r, w) \<Rightarrow> length (trace w) = 14 \<and> trace w ! 10 = (TrainBatch 0 0, Done)"
    by (simp add: run_defs env_defs env_disk_full_def)
  then have h: "length (trace (snd (script env_disk_full init))) = 14"
    "trace (snd (script env_disk_full init)) ! 10 = (TrainBatch 0 0, Done)"
    by (simp_all split: prod.splits)
  have lg: "batch_logs env_disk_full 10 ''loss'' = Some (PyNum (1 / 2))"
    "batch_logs env_disk_full 10 ''categorical_accuracy'' = Some (PyNum (3 / 4))"
    by (simp_all add: env_defs env_disk_full_def)
  have rs: "raises env_disk_full (10 + 1) (ReportScalar [(''Train loss'', 1 / 2)]) = None"
    "raises env_disk_full (10 + 2) (ReportScalar [(''Train accuracy'', 3 / 4)]) = None"
    by (simp_all add: env_defs env_disk_full_def)
  have "10 < length (trace (snd (script env_disk_full init)))" using h(1) by simp
  from training_minibatch_forwards_two_metrics [OF this h(2) lg rs] h show ?thesis by simp
qed

section \<open>The names of the files written\<close>

lemma digit_disj:
  "d < 10 \<Longrightarrow> d = 0 \<or> d = 1 \<or> d = 2 \<or> d = 3 \<or> d = 4 \<or> d = 5 \<or> d = 6 \<or> d = 7 \<or> d = 8 \<or> d = (9::nat)"
  by arith

lemma digit_cases:
  assumes "d < 10"
  obtains "d = 0" | "d = 1" | "d = 2" | "d = 3" | "d = 4" | "d = 5" | "d = 6" | "d = 7" | "d = 8"
    | "d = (9::nat)"
  using digit_disj [OF assms] by blast

lemma digit_of_nth: "d < 10 \<Longrightarrow> digit_of (''0123456789'' ! d) = d"
  by (erule digit_cases) (simp_all add: digit_of_def)

lemma is_digit_nth: "d < 10 \<Longrightarrow> is_digit (''0123456789'' ! d)"
  by (erule digit_cases) (simp_all add: is_digit_def)

lemma zero_digit_nth: "d < 10 \<Longrightarrow> ''0123456789'' ! d = CHR ''0'' \<Longrightarrow> d = 0"
  by (erule digit_cases) simp_all

lemma numeral_value_snoc: "numeral_value (ds @ [c]) = 10 * numeral_value ds + digit_of c"
  by (simp add: numeral_value_def)

lemma decimal_props:
  "decimal k \<noteq> [] \<and> (\<forall>c \<in> set (decimal k). is_digit c) \<and> numeral_value (decimal k) = k \<and>
   (hd (decimal k) = CHR ''0'' \<longrightarrow> k = 0)"
proof (induction k rule: decimal.induct)
  case (1 k)
  show ?case
  proof (cases "k < 10")
    case True
    then have d: "decimal k = [''0123456789'' ! k]" by (subst decimal.simps) simp
    show ?thesis
      unfolding d using True
      by (auto simp: is_digit_nth numeral_value_def digit_of_nth dest: zero_digit_nth)
  next
    case False
    then have d: "decimal k = decimal (k div 10) @ [''0123456789'' ! (k mod 10)]"
      by (subst decimal.simps) simp
    from 1 False have ih: "decimal (k div 10) \<noteq> []"
      "\<forall>c \<in> set (decimal (k div 10)). is_digit c"
      "numeral_value (decimal (k div 10)) = k div 10"
      "hd (decimal (k div 10)) = CHR ''0'' \<longrightarrow> k div 10 = 0"
      by simp_all
    have m: "k mod 10 < 10" by simp
    from False have nz: "k div 10 \<noteq> 0" by simp
    have "hd (decimal k) = hd (decimal (k div 10))" unfolding d using ih(1) by simp
    with ih(4) nz have h: "hd (decimal k) \<noteq> CHR ''0''" by auto
    have v: "numeral_value (decimal k) = k"
      unfolding d numeral_value_snoc ih(3) digit_of_nth [OF m] by simp
    show ?thesis using ih(1,2) h v is_digit_nth [OF m] unfolding d by auto
  qed
qed

lemma decimal_zero: "hd (decimal k) = CHR ''0'' \<Longrightarrow> decimal k = ''0''"
proof -
  assume "hd (decimal k) = CHR ''0''"
  with decimal_props [of k] have "k = 0" by simp
  then show ?thesis by (simp add: decimal.simps)
qed

lemma decimal_numeral_show_int: "decimal_numeral i (show_int i)"
proof -
  let ?ds = "decimal (nat \<bar>i\<bar>)"
  have s: "show_int i = (if i < 0 then ''-'' else []) @ ?ds"
    by (simp add: show_int_def abs_if)
  from decimal_props [of "nat \<bar>i\<bar>"] decimal_zero [of "nat \<bar>i\<bar>"] s show ?thesis
    unfolding decimal_numeral_def by blast
qed

lemma truncation_py_int: "truncation t (py_int t)"
  unfolding truncation_def py_int_def by (auto; linarith)

lemma format_02d_two_digits: "e < 100 \<Longrightarrow> format_02d e = two_digits e"
proof (cases "e < 10")
  case True
  then show ?thesis by (simp add: format_02d_def two_digits_def decimal.simps)
next
  case False
  assume "e < 100"
  with False have "e div 10 < 10" by simp
  with False show ?thesis
    by (simp add: format_02d_def two_digits_def decimal.simps [of e] decimal.simps [of "e div 10"])
qed

lemma weights_path_two_digits: "e \<le> 50 \<Longrightarrow> weights_path e = ''weights.'' @ two_digits e @ ''.hdf5''"
  by (simp add: weights_path_def format_02d_two_digits)

lemma final_path_numeral:
  "\<exists>i s. truncation t i \<and> decimal_numeral i s \<and> final_path t = ''tmnt_koopa_'' @ s @ ''.h5''"
  using truncation_py_int [of t] decimal_numeral_show_int [of "py_int t"]
  unfolding final_path_def by blast

text \<open>
  \<^bold>\<open>C6\<close>. The script scans only the directories \<^verbatim>\<open>./train/\<close> and \<^verbatim>\<open>./test/\<close>. Every file it writes
  is named \<^verbatim>\<open>weights.\<close>, the two decimal digits of an epoch between 1 and 50, \<^verbatim>\<open>.hdf5\<close>; or
  \<^verbatim>\<open>tmnt_koopa_\<close>, the decimal numeral of the clock in milliseconds truncated to an integer,
  \<^verbatim>\<open>.h5\<close>. A run that completes has scanned train, train, test, and has written the
  checkpoints of epochs 01 to 50, ten times \<^verbatim>\<open>weights.01.hdf5\<close>, and then one final model file
  named after the clock value it read.
\<close>

theorem files_read_and_written:
  assumes "script env init = (r, w)"
  shows "set (dirs_read (trace w)) \<subseteq> {''./train/'', ''./test/''} \<and>
         (\<forall>p \<in> set (files_written (trace w)).
            (\<exists>e. 1 \<le> e \<and> e \<le> 50 \<and> p = ''weights.'' @ two_digits e @ ''.hdf5'') \<or>
            (\<exists>k i s. truncation (millis env k) i \<and> decimal_numeral i s \<and>
               p = ''tmnt_koopa_'' @ s @ ''.h5'')) \<and>
         (r = Inr () \<longrightarrow>
            dirs_read (trace w) = [''./train/'', ''./train/'', ''./test/''] \<and>
            (\<exists>t i s. (Time, Clock t) \<in> set (trace w) \<and> truncation t i \<and> decimal_numeral i s \<and>
               files_written (trace w) =
                 map (\<lambda>e. ''weights.'' @ two_digits e @ ''.hdf5'') [1..<51] @
                 replicate 10 ''weights.01.hdf5'' @ [''tmnt_koopa_'' @ s @ ''.h5'']))"
proof (intro conjI impI)
  note paths = script_paths [OF assms]
  from paths show "set (dirs_read (trace w)) \<subseteq> {''./train/'', ''./test/''}" by blast
  show "\<forall>p \<in> set (files_written (trace w)).
          (\<exists>e. 1 \<le> e \<and> e \<le> 50 \<and> p = ''weights.'' @ two_digits e @ ''.hdf5'') \<or>
          (\<exists>k i s. truncation (millis env k) i \<and> decimal_numeral i s \<and>
             p = ''tmnt_koopa_'' @ s @ ''.h5'')"
  proof
    fix p assume "p \<in> set (files_written (trace w))"
    with paths consider e where "1 \<le> e" "e \<le> 50" "p = weights_path e"
      | k where "p = final_path (millis env k)" by blast
    then show "(\<exists>e. 1 \<le> e \<and> e \<le> 50 \<and> p = ''weights.'' @ two_digits e @ ''.hdf5'') \<or>
          (\<exists>k i s. truncation (millis env k) i \<and> decimal_numeral i s \<and>
             p = ''tmnt_koopa_'' @ s @ ''.h5'')"
    proof cases
      case 1
      then show ?thesis using weights_path_two_digits [of e] by blast
    next
      case 2
      then show ?thesis using final_path_numeral [of "millis env k"] by blast
    qed
  qed
next
  assume r: "r = Inr ()"
  note paths = script_paths [OF assms]
  from paths r show "dirs_read (trace w) = [''./train/'', ''./train/'', ''./test/'']" by blast
  from paths r obtain t where t: "(Time, Clock t) \<in> set (trace w)"
    "files_written (trace w) =
       map weights_path [1..<51] @ replicate 10 (weights_path 1) @ [final_path t]"
    by blast
  have m: "map weights_path [1..<51] = map (\<lambda>e. ''weights.'' @ two_digits e @ ''.hdf5'') [1..<51]"
    by (rule map_cong [OF refl]) (simp add: weights_path_two_digits)
  from final_path_numeral [of t] obtain i s where
    nm: "truncation t i" "decimal_numeral i s" "final_path t = ''tmnt_koopa_'' @ s @ ''.h5''"
    by blast
  have "files_written (trace w) =
          map (\<lambda>e. ''weights.'' @ two_digits e @ ''.hdf5'') [1..<51] @
          replicate 10 ''weights.01.hdf5'' @ [''tmnt_koopa_'' @ s @ ''.h5'']"
    unfolding t(2) m nm(3) using weights_path_1 by simp
  with t(1) nm(1,2) show "\<exists>t i s. (Time, Clock t) \<in> set (trace w) \<and> truncation t i \<and>
      decimal_numeral i s \<and>
      files_written (trace w) =
        map (\<lambda>e. ''weights.'' @ two_digits e @ ''.hdf5'') [1..<51] @
        replicate 10 ''weights.01.hdf5'' @ [''tmnt_koopa_'' @ s @ ''.h5'']"
    by blast
qed

lemma py_int_example: "py_int (1234567 / 8) = 154320"
proof -
  have "\<lfloor>1234567 / 8 :: rat\<rfloor> = 154320" by (rule floor_unique) simp_all
  then show ?thesis by (simp add: py_int_def)
qed

lemma final_path_example: "final_path (1234567 / 8) = ''tmnt_koopa_154320.h5''"
  by (simp add: final_path_def py_int_example show_int_def decimal.simps)

theorem files_read_and_written_witness:
  "fst (script env_small init) = Inr () \<and>
   dirs_read (trace (snd (script env_small init))) = [''./train/'', ''./train/'', ''./test/''] \<and>
   files_written (trace (snd (script env_small init))) =
     [''weights.01.hdf5'', ''weights.02.hdf5'', ''weights.03.hdf5'', ''weights.04.hdf5'',
      ''weights.05.hdf5'', ''weights.06.hdf5'', ''weights.07.hdf5'', ''weights.08.hdf5'',
      ''weights.09.hdf5'', ''weights.10.hdf5'', ''weights.11.hdf5'', ''weights.12.hdf5'',
      ''weights.13.hdf5'', ''weights.14.hdf5'', ''weights.15.hdf5'', ''weights.16.hdf5'',
      ''weights.17.hdf5'', ''weights.18.hdf5'', ''weights.19.hdf5'', ''weights.20.hdf5'',
      ''weights.21.hdf5'', ''weights.22.hdf5'', ''weights.23.hdf5'', ''weights.24.hdf5'',
      ''weights.25.hdf5'', ''weights.26.hdf5'', ''weights.27.hdf5'', ''weights.28.hdf5'',
      ''weights.29.hdf5'', ''weights.30.hdf5'', ''weights.31.hdf5'', ''weights.32.hdf5'',
      ''weights.33.hdf5'', ''weights.34.hdf5'', ''weights.35.hdf5'', ''weights.36.hdf5'',
      ''weights.37.hdf5'', ''weights.38.hdf5'', ''weights.39.hdf5'', ''weights.40.hdf5'',
      ''weights.41.hdf5'', ''weights.42.hdf5'', ''weights.43.hdf5'', ''weights.44.hdf5'',
      ''weights.45.hdf5'', ''weights.46.hdf5'', ''weights.47.hdf5'', ''weights.48.hdf5'',
      ''weights.49.hdf5'', ''weights.50.hdf5'', ''weights.01.hdf5'', ''weights.01.hdf5'',
      ''weights.01.hdf5'', ''weights.01.hdf5'', ''weights.01.hdf5'', ''weights.01.hdf5'',
      ''weights.01.hdf5'', ''weights.01.hdf5'', ''weights.01.hdf5'', ''weights.01.hdf5'',
      ''tmnt_koopa_154320.h5'']"
proof -
  have h: "script env_small init = (fst (script env_small init), snd (script env_small init))"
    by simp
  have ev: "case script env_small init of
      (r, w) \<Rightarrow> files_written (trace w) =
     [''weights.01.hdf5'', ''weights.02.hdf5'', ''weights.03.hdf5'', ''weights.04.hdf5'',
      ''weights.05.hdf5'', ''weights.06.hdf5'', ''weights.07.hdf5'', ''weights.08.hdf5'',
      ''weights.09.hdf5'', ''weights.10.hdf5'', ''weights.11.hdf5'', ''weights.12.hdf5'',
      ''weights.13.hdf5'', ''weights.14.hdf5'', ''weights.15.hdf5'', ''weights.16.hdf5'',
      ''weights.17.hdf5'', ''weights.18.hdf5'', ''weights.19.hdf5'', ''weights.20.hdf5'',
      ''weights.21.hdf5'', ''weights.22.hdf5'', ''weights.23.hdf5'', ''weights.24.hdf5'',
      ''weights.25.hdf5'', ''weights.26.hdf5'', ''weights.27.hdf5'', ''weights.28.hdf5'',
      ''weights.29.hdf5'', ''weights.30.hdf5'', ''weights.31.hdf5'', ''weights.32.hdf5'',
      ''weights.33.hdf5'', ''weights.34.hdf5'', ''weights.35.hdf5'', ''weights.36.hdf5'',
      ''weights.37.hdf5'', ''weights.38.hdf5'', ''weights.39.hdf5'', ''weights.40.hdf5'',
      ''weights.41.hdf5'', ''weights.42.hdf5'', ''weights.43.hdf5'', ''weights.44.hdf5'',
      ''weights.45.hdf5'', ''weights.46.hdf5'', ''weights.47.hdf5'', ''weights.48.hdf5'',
      ''weights.49.hdf5'', ''weights.50.hdf5'', ''weights.01.hdf5'', ''weights.01.hdf5'',
      ''weights.01.hdf5'', ''weights.01.hdf5'', ''weights.01.hdf5'', ''weights.01.hdf5'',
      ''weights.01.hdf5'', ''weights.01.hdf5'', ''weights.01.hdf5'', ''weights.01.hdf5'',
      ''tmnt_koopa_154320.h5'']"
    by (simp add: run_defs env_defs env_small_def final_path_example del: final_path_def)
  then have f: "files_written (trace (snd (script env_small init))) =
     [''weights.01.hdf5'', ''weights.02.hdf5'', ''weights.03.hdf5'', ''weights.04.hdf5'',
      ''weights.05.hdf5'', ''weights.06.hdf5'', ''weights.07.hdf5'', ''weights.08.hdf5'',
      ''weights.09.hdf5'', ''weights.10.hdf5'', ''weights.11.hdf5'', ''weights.12.hdf5'',
      ''weights.13.hdf5'', ''weights.14.hdf5'', ''weights.15.hdf5'', ''weights.16.hdf5'',
      ''weights.17.hdf5'', ''weights.18.hdf5'', ''weights.19.hdf5'', ''weights.20.hdf5'',
      ''weights.21.hdf5'', ''weights.22.hdf5'', ''weights.23.hdf5'', ''weights.24.hdf5'',
      ''weights.25.hdf5'', ''weights.26.hdf5'', ''weights.27.hdf5'', ''weights.28.hdf5'',
      ''weights.29.hdf5'', ''weights.30.hdf5'', ''weights.31.hdf5'', ''weights.32.hdf5'',
      ''weights.33.hdf5'', ''weights.34.hdf5'', ''weights.35.hdf5'', ''weights.36.hdf5'',
      ''weights.37.hdf5'', ''weights.38.hdf5'', ''weights.39.hdf5'', ''weights.40.hdf5'',
      ''weights.41.hdf5'', ''weights.42.hdf5'', ''weights.43.hdf5'', ''weights.44.hdf5'',
      ''weights.45.hdf5'', ''weights.46.hdf5'', ''weights.47.hdf5'', ''weights.48.hdf5'',
      ''weights.49.hdf5'', ''weights.50.hdf5'', ''weights.01.hdf5'', ''weights.01.hdf5'',
      ''weights.01.hdf5'', ''weights.01.hdf5'', ''weights.01.hdf5'', ''weights.01.hdf5'',
      ''weights.01.hdf5'', ''weights.01.hdf5'', ''weights.01.hdf5'', ''weights.01.hdf5'',
      ''tmnt_koopa_154320.h5'']"
    by (simp only: case_prod_unfold)
  note d = files_read_and_written [OF h, THEN conjunct2, THEN conjunct2, THEN mp,
      OF script_env_small_ok, THEN conjunct1]
  show ?thesis by (intro conjI script_env_small_ok d f)
qed

end
